theory Spec2Isabelle
  imports Complex_Main
begin

unbundle bit_operations_syntax

section \<open>Rasters and the image operations the program requests\<close>

text \<open>
  The program (\<^verbatim>\<open>src/backend/main.py\<close>) builds images through the Earth Engine client and
  asks the compute service to evaluate them. The service is not part of the repository;
  its operations are modelled here pixel by pixel, after their public documentation, on
  the smallest data that the program's expressions need:

  \<^item> a raster gives every pixel a value or no value (\<open>None\<close>: the pixel is masked);
  \<^item> a band is a named raster (a single-band image);
  \<^item> an image is a raster for every band name. Images lacking a band that the program
    selects (\<^verbatim>\<open>B3\<close>, \<^verbatim>\<open>B8\<close>, \<^verbatim>\<open>QA60\<close>) are not represented: the collection the program
    reads carries them on every image.

  The service's pixel values are real numbers here: how the service rounds is not the
  program's affair. The program's own arithmetic, on Python floats, is modelled with its
  rounding (see below).
\<close>

type_synonym pixel = "int \<times> int"

type_synonym raster = "pixel \<Rightarrow> real option"

datatype band = Band (band_name: string) (pixels: raster)

type_synonym image = "string \<Rightarrow> raster"

type_synonym region = "pixel list"

text \<open>\<^verbatim>\<open>ee.Image(c)\<close>: one band named \<^verbatim>\<open>constant\<close>, unmasked everywhere.\<close>

definition ee_Image :: "real \<Rightarrow> band" where
  "ee_Image c = Band ''constant'' (\<lambda>p. Some c)"

text \<open>\<^verbatim>\<open>eq\<close>, \<^verbatim>\<open>gt\<close>: 1 where the comparison holds, 0 where it does not, masked where the
  input is masked.\<close>

definition ee_eq :: "band \<Rightarrow> real \<Rightarrow> band" where
  "ee_eq b c = Band (band_name b) (\<lambda>p. map_option (\<lambda>x. if x = c then 1 else 0) (pixels b p))"

definition ee_gt :: "band \<Rightarrow> real \<Rightarrow> band" where
  "ee_gt b c = Band (band_name b) (\<lambda>p. map_option (\<lambda>x. if x > c then 1 else 0) (pixels b p))"

text \<open>\<^verbatim>\<open>And\<close>: 1 where both values are non-zero, masked where either input is masked.\<close>

definition ee_And :: "band \<Rightarrow> band \<Rightarrow> band" where
  "ee_And a b = Band (band_name a)
     (\<lambda>p. case pixels a p of
             None \<Rightarrow> None
           | Some x \<Rightarrow> (case pixels b p of
                         None \<Rightarrow> None
                       | Some y \<Rightarrow> Some (if x \<noteq> 0 \<and> y \<noteq> 0 then 1 else 0)))"

text \<open>\<^verbatim>\<open>bitwiseAnd\<close> with an integer constant.\<close>

definition ee_bitwiseAnd :: "band \<Rightarrow> int \<Rightarrow> band" where
  "ee_bitwiseAnd b m = Band (band_name b) (\<lambda>p. map_option (\<lambda>x. real_of_int (\<lfloor>x\<rfloor> AND m)) (pixels b p))"

text \<open>\<^verbatim>\<open>input.where(test, value)\<close>: the value where the test is non-zero, the input pixel
  elsewhere; where the test is masked the input pixel is kept; a masked input pixel stays
  masked. The output band keeps the input's name.\<close>

definition ee_where :: "band \<Rightarrow> band \<Rightarrow> real \<Rightarrow> band" where
  "ee_where input test v = Band (band_name input)
     (\<lambda>p. case pixels input p of
             None \<Rightarrow> None
           | Some x \<Rightarrow> (case pixels test p of
                         None \<Rightarrow> Some x
                       | Some t \<Rightarrow> if t \<noteq> 0 then Some v else Some x))"

text \<open>\<^verbatim>\<open>selfMask\<close>: a pixel whose value is zero becomes masked.\<close>

definition ee_selfMask :: "band \<Rightarrow> band" where
  "ee_selfMask b = Band (band_name b)
     (\<lambda>p. case pixels b p of None \<Rightarrow> None | Some x \<Rightarrow> if x \<noteq> 0 then Some x else None)"

definition ee_rename :: "band \<Rightarrow> string \<Rightarrow> band" where
  "ee_rename b n = Band n (pixels b)"

definition ee_select :: "image \<Rightarrow> string \<Rightarrow> band" where
  "ee_select im n = Band n (im n)"

text \<open>\<^verbatim>\<open>updateMask\<close>: a pixel of any band stays unmasked only where the mask is unmasked
  and non-zero.\<close>

definition ee_updateMask :: "image \<Rightarrow> band \<Rightarrow> image" where
  "ee_updateMask im msk =
     (\<lambda>b p. case pixels msk p of None \<Rightarrow> None | Some m \<Rightarrow> if m \<noteq> 0 then im b p else None)"

definition ee_divide :: "image \<Rightarrow> real \<Rightarrow> image" where
  "ee_divide im c = (\<lambda>b p. map_option (\<lambda>x. x / c) (im b p))"

text \<open>\<^verbatim>\<open>clip\<close>: pixels outside the region are masked.\<close>

definition ee_clip :: "image \<Rightarrow> region \<Rightarrow> image" where
  "ee_clip im roi = (\<lambda>b p. if p \<in> set roi then im b p else None)"

text \<open>
  \<^verbatim>\<open>normalizedDifference([b1, b2])\<close>: \<open>(first - second) / (first + second)\<close> in a band
  named \<^verbatim>\<open>nd\<close>; a negative value in either input masks the output pixel. What the
  service returns when the denominator is zero is not documented: it is the parameter
  \<open>zero_sum\<close>.
\<close>

definition nd_pixel :: "real option \<Rightarrow> real option \<Rightarrow> real option \<Rightarrow> real option" where
  "nd_pixel zero_sum a b =
     (case a of
        None \<Rightarrow> None
      | Some x \<Rightarrow> (case b of
                    None \<Rightarrow> None
                  | Some y \<Rightarrow> if x < 0 \<or> y < 0 then None
                              else if x + y = 0 then zero_sum
                              else Some ((x - y) / (x + y))))"

definition ee_normalizedDifference :: "real option \<Rightarrow> image \<Rightarrow> string \<Rightarrow> string \<Rightarrow> band" where
  "ee_normalizedDifference zero_sum im b1 b2 = Band ''nd'' (\<lambda>p. nd_pixel zero_sum (im b1 p) (im b2 p))"

section \<open>The image collection\<close>

text \<open>An image of the collection: its bands, the pixels its footprint covers, its
  acquisition time and its \<^verbatim>\<open>CLOUDY_PIXEL_PERCENTAGE\<close> property.\<close>

record scene =
  bands :: image
  footprint :: region
  time_start :: int
  cloudy_pixel_percentage :: real

definition ee_filterBounds :: "region \<Rightarrow> scene list \<Rightarrow> scene list" where
  "ee_filterBounds roi col = filter (\<lambda>s. \<exists>p \<in> set (footprint s). p \<in> set roi) col"

text \<open>\<^verbatim>\<open>filterDate(start, end)\<close>: the start is inclusive, the end exclusive.\<close>

definition ee_filterDate :: "int \<Rightarrow> int \<Rightarrow> scene list \<Rightarrow> scene list" where
  "ee_filterDate t0 t1 col = filter (\<lambda>s. t0 \<le> time_start s \<and> time_start s < t1) col"

text \<open>\<^verbatim>\<open>filter(ee.Filter.lt('CLOUDY_PIXEL_PERCENTAGE', c))\<close>.\<close>

definition ee_filter_lt_cloudy :: "real \<Rightarrow> scene list \<Rightarrow> scene list" where
  "ee_filter_lt_cloudy c col = filter (\<lambda>s. cloudy_pixel_percentage s < c) col"

definition ee_map :: "(image \<Rightarrow> image) \<Rightarrow> scene list \<Rightarrow> scene list" where
  "ee_map f col = map (\<lambda>s. s\<lparr>bands := f (bands s)\<rparr>) col"

text \<open>The median of the unmasked values of a pixel: the middle value of the sorted
  list, the mean of the two middle values when their number is even, masked when there
  are none.\<close>

definition median_of :: "real list \<Rightarrow> real option" where
  "median_of xs =
     (let ys = sort xs; n = length ys in
      if n = 0 then None
      else if odd n then Some (ys ! (n div 2))
      else Some ((ys ! (n div 2 - 1) + ys ! (n div 2)) / 2))"

definition ee_median :: "scene list \<Rightarrow> image" where
  "ee_median col = (\<lambda>b p. median_of (List.map_filter (\<lambda>s. bands s b p) col))"

section \<open>The service, the log and the remote calls\<close>

datatype json =
    JNull
  | JBool bool
  | JNumber real
  | JString string
  | JArray "json list"
  | JObject "(string \<times> json) list"

text \<open>The value of one key of the statistics dictionary: \<^verbatim>\<open>null\<close> or a histogram, a
  dictionary from the pixel value (as a string) to its count.\<close>

type_synonym histogram = "(string \<times> real) list"

text \<open>
  What this program cannot decide is a field of the service:
  \<^item> \<open>geometry\<close>: the client's \<^verbatim>\<open>ee.Geometry\<close> constructor, which raises (\<open>Inl\<close> the
    message) on a dictionary it rejects and otherwise yields the region;
  \<^item> \<open>parse_date\<close>: the service's reading of a date string (\<open>Inl\<close>: the evaluation fails
    with this message);
  \<^item> \<open>catalog\<close>: the images of \<^verbatim>\<open>COPERNICUS/S2_SR_HARMONIZED\<close>;
  \<^item> \<open>zero_sum\<close>: the normalized difference of a zero denominator;
  \<^item> \<open>tile_url\<close>: the \<^verbatim>\<open>url_format\<close> of the tile fetcher \<^verbatim>\<open>getMapId\<close> returns;
  \<^item> \<open>reduce_region\<close>: the dictionary \<^verbatim>\<open>reduceRegion(...).getInfo()\<close> returns
    (\<open>None\<close> under a key is \<^verbatim>\<open>null\<close>).
\<close>

record service =
  geometry :: "(string \<times> json) list \<Rightarrow> string + region"
  parse_date :: "string \<Rightarrow> string + int"
  catalog :: "scene list"
  zero_sum :: "real option"
  tile_url :: "band \<Rightarrow> string"
  reduce_region :: "band \<Rightarrow> region \<Rightarrow> (string \<times> histogram option) list"

datatype level = INFO | ERROR

datatype credentials = ServiceAccountCredentials string string | DefaultCredentials

datatype remote_call =
    Initialize credentials
  | CollectionSize region string string
  | GetMapId real real "string list"
  | ReduceRegion real real bool

datatype step = ClassifyWater | DetectChange

text \<open>The trace of an execution, in program order: every logger call, every remote
  call, and every call of the classifier and of the change detector.\<close>

datatype event = Log level string | Remote remote_call | Compute step

text \<open>The world: the trace so far, and what the next remote calls will do (\<open>Some e\<close>:
  the call raises an exception of message \<open>e\<close>; past the end of the list no call
  fails).\<close>

record world =
  trace :: "event list"
  faults :: "string option list"

definition logger :: "level \<Rightarrow> string \<Rightarrow> world \<Rightarrow> world" where
  "logger l m w = w\<lparr>trace := trace w @ [Log l m]\<rparr>"

definition computed :: "step \<Rightarrow> world \<Rightarrow> world" where
  "computed s w = w\<lparr>trace := trace w @ [Compute s]\<rparr>"

definition remote :: "remote_call \<Rightarrow> world \<Rightarrow> string option \<times> world" where
  "remote c w =
     (case faults w of
        [] \<Rightarrow> (None, w\<lparr>trace := trace w @ [Remote c]\<rparr>)
      | f # fs \<Rightarrow> (f, w\<lparr>trace := trace w @ [Remote c], faults := fs\<rparr>))"

definition dict_get :: "('k \<times> 'v) list \<Rightarrow> 'k \<Rightarrow> 'v \<Rightarrow> 'v" where
  "dict_get d k dflt = (case map_of d k of None \<Rightarrow> dflt | Some v \<Rightarrow> v)"

section \<open>Authentication at start-up (lines 15-30)\<close>

text \<open>The host of the process: its environment variables (after \<^verbatim>\<open>load_dotenv\<close>), which
  paths exist, and whether \<^verbatim>\<open>ee.ServiceAccountCredentials\<close> raises on an account and a key
  file (\<open>Some e\<close>: it raises an exception of message \<open>e\<close>).\<close>

record host =
  getenv :: "string \<Rightarrow> string option"
  path_exists :: "string \<Rightarrow> bool"
  credentials_error :: "string \<Rightarrow> string \<Rightarrow> string option"

text \<open>Python's truth value of what \<^verbatim>\<open>os.getenv\<close> returns: \<^verbatim>\<open>None\<close> and the empty string
  are false.\<close>

definition truthy :: "string option \<Rightarrow> bool" where
  "truthy v = (case v of None \<Rightarrow> False | Some s \<Rightarrow> s \<noteq> [])"

text \<open>\<^verbatim>\<open>ee.Initialize(...)\<close> followed by the \<^verbatim>\<open>logger.info\<close> of its branch.\<close>

definition initialize_then_log :: "credentials \<Rightarrow> string \<Rightarrow> world \<Rightarrow> string option \<times> world" where
  "initialize_then_log c msg w =
     (case remote (Initialize c) w of
        (Some e, w1) \<Rightarrow> (Some e, w1)
      | (None, w1) \<Rightarrow> (None, logger INFO msg w1))"

text \<open>The body of the \<^verbatim>\<open>try\<close> (lines 17-26); \<open>Some e\<close>: it raised.\<close>

definition authenticate :: "host \<Rightarrow> world \<Rightarrow> string option \<times> world" where
  "authenticate h w =
     (let service_account = getenv h ''GEE_SERVICE_ACCOUNT'';
          key_file = getenv h ''GEE_KEY_FILE''
      in case service_account of
           None \<Rightarrow> initialize_then_log DefaultCredentials
                     ''Authentication: Default Google Cloud Auth Initialized'' w
         | Some sa \<Rightarrow>
             (case key_file of
                None \<Rightarrow> initialize_then_log DefaultCredentials
                          ''Authentication: Default Google Cloud Auth Initialized'' w
              | Some kf \<Rightarrow>
                  if truthy service_account \<and> truthy key_file \<and> path_exists h kf then
                    (case credentials_error h sa kf of
                       Some e \<Rightarrow> (Some e, w)
                     | None \<Rightarrow> initialize_then_log (ServiceAccountCredentials sa kf)
                                 ''Authentication: Service Account Initialized'' w)
                  else initialize_then_log DefaultCredentials
                         ''Authentication: Default Google Cloud Auth Initialized'' w))"

text \<open>The module's start-up: the \<^verbatim>\<open>try\<close> with its \<^verbatim>\<open>except Exception\<close>, then
  \<^verbatim>\<open>app = FastAPI()\<close>. \<open>Aborted\<close> is an exception that leaves the module.\<close>

datatype process = Serving world | Aborted string

definition startup :: "host \<Rightarrow> world \<Rightarrow> process" where
  "startup h w =
     (case authenticate h w of
        (Some e, w1) \<Rightarrow> Serving (logger ERROR (''Authentication Failed: '' @ e) w1)
      | (None, w1) \<Rightarrow> Serving w1)"

section \<open>The mosaic builder (lines 42-68)\<close>

text \<open>The filtered collection \<^verbatim>\<open>s2\<close> (lines 46-49). It is evaluated by the service: a date
  the service cannot read makes the evaluation fail.\<close>

definition s2_collection :: "service \<Rightarrow> region \<Rightarrow> string \<Rightarrow> string \<Rightarrow> string + scene list" where
  "s2_collection svc roi start_date end_date =
     (case parse_date svc start_date of
        Inl e \<Rightarrow> Inl e
      | Inr t0 \<Rightarrow>
          (case parse_date svc end_date of
             Inl e \<Rightarrow> Inl e
           | Inr t1 \<Rightarrow>
               Inr (ee_filter_lt_cloudy 30 (ee_filterDate t0 t1 (ee_filterBounds roi (catalog svc))))))"

definition mask_clouds :: "image \<Rightarrow> image" where
  "mask_clouds img =
     (let qa = ee_select img ''QA60'';
          cloud_bit_mask = push_bit 10 1;
          cirrus_bit_mask = push_bit 11 1;
          msk = ee_And (ee_eq (ee_bitwiseAnd qa cloud_bit_mask) 0)
                       (ee_eq (ee_bitwiseAnd qa cirrus_bit_mask) 0)
      in ee_divide (ee_updateMask img msk) 10000)"

text \<open>\<open>Inl e\<close>: the function raised an exception of message \<open>e\<close>; \<open>Inr None\<close>: it
  returned \<^verbatim>\<open>None\<close>. \<^verbatim>\<open>s2.size().getInfo()\<close> is the only remote call; the mosaic of line
  65 is built without one.\<close>

definition get_sentinel_mosaic ::
  "service \<Rightarrow> region \<Rightarrow> string \<Rightarrow> string \<Rightarrow> world \<Rightarrow> (string + image option) \<times> world" where
  "get_sentinel_mosaic svc roi start_date end_date w =
     (let s2 = s2_collection svc roi start_date end_date in
      case remote (CollectionSize roi start_date end_date) w of
        (Some e, w1) \<Rightarrow> (Inl e, logger ERROR (''Error fetching Sentinel data: '' @ e) w1)
      | (None, w1) \<Rightarrow>
          (case s2 of
             Inl e \<Rightarrow> (Inl e, logger ERROR (''Error fetching Sentinel data: '' @ e) w1)
           | Inr scenes \<Rightarrow>
               (let count = length scenes in
                if count = 0 then (Inr None, w1)
                else (Inr (Some (ee_clip (ee_median (ee_map mask_clouds scenes)) roi)), w1))))"

section \<open>The water classifier (lines 70-75)\<close>

definition calculate_ndwi :: "service \<Rightarrow> image \<Rightarrow> band" where
  "calculate_ndwi svc img =
     ee_rename (ee_normalizedDifference (zero_sum svc) img ''B3'' ''B8'') ''NDWI''"

definition classify_water :: "service \<Rightarrow> image \<Rightarrow> real \<Rightarrow> band" where
  "classify_water svc img threshold =
     (let ndwi = calculate_ndwi svc img in ee_rename (ee_gt ndwi threshold) ''water'')"

text \<open>The call that leaves \<^verbatim>\<open>threshold\<close> to its default, \<^verbatim>\<open>0.0\<close>.\<close>

definition classify_water_default :: "service \<Rightarrow> image \<Rightarrow> band" where
  "classify_water_default svc img = classify_water svc img 0"

section \<open>Python floats (lines 132-139)\<close>

text \<open>
  The arithmetic the program itself does is on Python floats, IEEE 754 binary64: a
  result is the exact result rounded to the nearest number with a significand of 53
  bits, ties going to the even significand. A float is modelled as the real number it
  is, and every operation as the exact operation followed by \<open>fl\<close>.

  \<open>binade x\<close> is the exponent \<open>e\<close> with \<open>2 ^ e \<le> \<bar>x\<bar> < 2 ^ (e + 1)\<close>, found by halving or
  doubling; the spacing of the floats around \<open>x\<close> is \<open>2 ^ (e - 52)\<close>, and never below
  \<open>2 ^ - 1074\<close> (the subnormal numbers). Infinities are not modelled: \<open>fl\<close> is the rounding
  of values below \<open>2 ^ 1024\<close> in magnitude, which the counts of a histogram (the
  statistics step caps the number of pixels) and their products with the area of a
  pixel are.
\<close>

definition pow2 :: "int \<Rightarrow> real" where
  "pow2 e = (if 0 \<le> e then 2 ^ nat e else 1 / 2 ^ nat (- e))"

fun binade_from :: "nat \<Rightarrow> int \<Rightarrow> real \<Rightarrow> int" where
  "binade_from 0 e x = e"
| "binade_from (Suc n) e x =
     (if 2 \<le> x then binade_from n (e + 1) (x / 2)
      else if x < 1 then binade_from n (e - 1) (2 * x)
      else e)"

definition binade :: "real \<Rightarrow> int" where
  "binade x = binade_from 2200 0 \<bar>x\<bar>"

text \<open>Rounding to the nearest integer, a tie going to the even one.\<close>

definition round_half_even :: "real \<Rightarrow> int" where
  "round_half_even q =
     (let f = \<lfloor>q\<rfloor>; r = q - of_int f in
      if r < 1 / 2 then f
      else if 1 / 2 < r then f + 1
      else if even f then f else f + 1)"

definition fl :: "real \<Rightarrow> real" where
  "fl x =
     (if x = 0 then 0
      else (let e = max (binade x - 52) (- 1074) in
            of_int (round_half_even (x / pow2 e)) * pow2 e))"

text \<open>\<^verbatim>\<open>a * b\<close> and \<^verbatim>\<open>a / b\<close> on floats; an integer operand is converted to a float
  first.\<close>

definition float_mul :: "real \<Rightarrow> real \<Rightarrow> real" where
  "float_mul a b = fl (fl a * fl b)"

definition float_div :: "real \<Rightarrow> real \<Rightarrow> real" where
  "float_div a b = fl (fl a / fl b)"

section \<open>The request and the handler (lines 79-147)\<close>

record AnalysisRequest =
  geojson :: "(string \<times> json) list"
  date1_start :: string
  date1_end :: string
  date2_start :: string
  date2_end :: string

text \<open>The framework reads the body against the declared fields before it calls the
  handler: the body is an object, \<^verbatim>\<open>geojson\<close> an object, each date a string. Of a key
  written twice the last value counts.\<close>

definition json_field :: "(string \<times> json) list \<Rightarrow> string \<Rightarrow> json option" where
  "json_field obj k = map_of (rev obj) k"

definition str_field :: "(string \<times> json) list \<Rightarrow> string \<Rightarrow> string option" where
  "str_field obj k = (case json_field obj k of Some (JString s) \<Rightarrow> Some s | _ \<Rightarrow> None)"

definition dict_field :: "(string \<times> json) list \<Rightarrow> string \<Rightarrow> (string \<times> json) list option" where
  "dict_field obj k = (case json_field obj k of Some (JObject d) \<Rightarrow> Some d | _ \<Rightarrow> None)"

definition parse_request :: "json \<Rightarrow> AnalysisRequest option" where
  "parse_request body =
     (case body of
        JObject obj \<Rightarrow>
          (case dict_field obj ''geojson'' of
             None \<Rightarrow> None
           | Some g \<Rightarrow>
          (case str_field obj ''date1_start'' of
             None \<Rightarrow> None
           | Some s1 \<Rightarrow>
          (case str_field obj ''date1_end'' of
             None \<Rightarrow> None
           | Some e1 \<Rightarrow>
          (case str_field obj ''date2_start'' of
             None \<Rightarrow> None
           | Some s2 \<Rightarrow>
          (case str_field obj ''date2_end'' of
             None \<Rightarrow> None
           | Some e2 \<Rightarrow>
               Some \<lparr>geojson = g, date1_start = s1, date1_end = e1,
                     date2_start = s2, date2_end = e2\<rparr>)))))
      | _ \<Rightarrow> None)"

text \<open>The change raster (lines 112-116): 1 = gain, 2 = loss, 3 = persistent.\<close>

definition gain_test :: "band \<Rightarrow> band \<Rightarrow> band" where
  "gain_test water_t1 water_t2 = ee_And (ee_eq water_t1 0) (ee_eq water_t2 1)"

definition loss_test :: "band \<Rightarrow> band \<Rightarrow> band" where
  "loss_test water_t1 water_t2 = ee_And (ee_eq water_t1 1) (ee_eq water_t2 0)"

definition persistent_test :: "band \<Rightarrow> band \<Rightarrow> band" where
  "persistent_test water_t1 water_t2 = ee_And (ee_eq water_t1 1) (ee_eq water_t2 1)"

definition change :: "band \<Rightarrow> band \<Rightarrow> band" where
  "change water_t1 water_t2 =
     ee_selfMask
       (ee_where
          (ee_where
             (ee_where (ee_Image 0) (gain_test water_t1 water_t2) 1)
             (loss_test water_t1 water_t2) 2)
          (persistent_test water_t1 water_t2) 3)"

text \<open>A test is satisfied at a pixel where its value is unmasked and non-zero.\<close>

definition satisfied :: "band \<Rightarrow> pixel \<Rightarrow> bool" where
  "satisfied t p = (case pixels t p of None \<Rightarrow> False | Some x \<Rightarrow> x \<noteq> 0)"

record area_stats =
  gain_sqkm :: real
  loss_sqkm :: real
  persistent_sqkm :: real

datatype exn = HTTPException nat string | Exception string

datatype response =
    OK string area_stats
  | HTTPError nat string
  | RequestValidationError

fun status_code :: "response \<Rightarrow> nat" where
  "status_code (OK _ _) = 200"
| "status_code (HTTPError c _) = c"
| "status_code RequestValidationError = 422"

text \<open>Line 132: the product of the two integers is exact, the division is on floats.\<close>

definition pixel_area_sqkm :: real where
  "pixel_area_sqkm = float_div (10 * 10) 1000000"

definition period1_detail :: "AnalysisRequest \<Rightarrow> string" where
  "period1_detail request =
     ''No clear images found for Period 1 ('' @ date1_start request @ '' to ''
       @ date1_end request @ ''). '' @ [CHR 0x0A]
       @ ''Suggestion: Try a different month or expand the date range.''"

definition period2_detail :: "AnalysisRequest \<Rightarrow> string" where
  "period2_detail request =
     ''No clear images found for Period 2 ('' @ date2_start request @ '' to ''
       @ date2_end request @ ''). '' @ [CHR 0x0A]
       @ ''Suggestion: Monsoon clouds might be blocking the view. Try ''
       @ [CHR 0x27] @ ''November'' @ [CHR 0x27] @ '' or ''
       @ [CHR 0x27] @ ''April'' @ [CHR 0x27] @ ''.''"

text \<open>The message of the \<^verbatim>\<open>AttributeError\<close> that \<^verbatim>\<open>None.get\<close> raises.\<close>

definition none_has_no_get :: string where
  "none_has_no_get =
     [CHR 0x27] @ ''NoneType'' @ [CHR 0x27] @ '' object has no attribute ''
       @ [CHR 0x27] @ ''get'' @ [CHR 0x27]"

text \<open>Lines 118-141, after the change raster is built: the two remote calls and the
  response. \<^verbatim>\<open>stats.get('constant', {})\<close> is \<^verbatim>\<open>None\<close> when the service answers \<^verbatim>\<open>null\<close>
  under that key, and \<^verbatim>\<open>None.get\<close> raises.\<close>

definition render_and_stats ::
  "service \<Rightarrow> band \<Rightarrow> region \<Rightarrow> world \<Rightarrow> (exn + string \<times> area_stats) \<times> world" where
  "render_and_stats svc chg roi w =
     (case remote (GetMapId 1 3 [''00FF00'', ''FF0000'', ''0000FF'']) w of
        (Some e, w1) \<Rightarrow> (Inl (Exception e), w1)
      | (None, w1) \<Rightarrow>
          (let map_id = tile_url svc chg in
           case remote (ReduceRegion 10 1000000000 True) w1 of
             (Some e, w2) \<Rightarrow> (Inl (Exception e), w2)
           | (None, w2) \<Rightarrow>
               (let stats = reduce_region svc chg roi in
                case dict_get stats ''constant'' (Some []) of
                  None \<Rightarrow> (Inl (Exception none_has_no_get), w2)
                | Some histogram \<Rightarrow>
                    (Inr (map_id,
                          \<lparr>gain_sqkm = float_mul (dict_get histogram ''1'' 0) pixel_area_sqkm,
                           loss_sqkm = float_mul (dict_get histogram ''2'' 0) pixel_area_sqkm,
                           persistent_sqkm =
                             float_mul (dict_get histogram ''3'' 0) pixel_area_sqkm\<rparr>),
                     w2))))"

text \<open>The message of line 91.\<close>

definition request_line :: "AnalysisRequest \<Rightarrow> string" where
  "request_line request =
     ''Request: T1('' @ date1_start request @ '') vs T2('' @ date2_start request @ '')''"

text \<open>The body of the handler's \<^verbatim>\<open>try\<close> (lines 91-141).\<close>

definition analyze_change_try ::
  "service \<Rightarrow> AnalysisRequest \<Rightarrow> world \<Rightarrow> (exn + string \<times> area_stats) \<times> world" where
  "analyze_change_try svc request w =
     (let w0 = logger INFO (request_line request) w in
      case geometry svc (geojson request) of
        Inl e \<Rightarrow> (Inl (Exception e), w0)
      | Inr roi \<Rightarrow>
          (case get_sentinel_mosaic svc roi (date1_start request) (date1_end request) w0 of
             (Inl e, w1) \<Rightarrow> (Inl (Exception e), w1)
           | (Inr img_t1, w1) \<Rightarrow>
               (case get_sentinel_mosaic svc roi (date2_start request) (date2_end request) w1 of
                  (Inl e, w2) \<Rightarrow> (Inl (Exception e), w2)
                | (Inr img_t2, w2) \<Rightarrow>
                    (case img_t1 of
                       None \<Rightarrow> (Inl (HTTPException 404 (period1_detail request)), w2)
                     | Some i1 \<Rightarrow>
                         (case img_t2 of
                            None \<Rightarrow> (Inl (HTTPException 404 (period2_detail request)), w2)
                          | Some i2 \<Rightarrow>
                              (let water_t1 = classify_water svc i1 0;
                                   w3 = computed ClassifyWater w2;
                                   water_t2 = classify_water svc i2 0;
                                   w4 = computed ClassifyWater w3;
                                   chg = change water_t1 water_t2;
                                   w5 = computed DetectChange w4
                               in render_and_stats svc chg roi w5))))))"

text \<open>The handler with its two \<^verbatim>\<open>except\<close> clauses (lines 143-147).\<close>

definition analyze_change :: "service \<Rightarrow> AnalysisRequest \<Rightarrow> world \<Rightarrow> response \<times> world" where
  "analyze_change svc request w =
     (case analyze_change_try svc request w of
        (Inr (url, st), w1) \<Rightarrow> (OK url st, w1)
      | (Inl (HTTPException code detail), w1) \<Rightarrow> (HTTPError code detail, w1)
      | (Inl (Exception e), w1) \<Rightarrow> (HTTPError 500 e, logger ERROR (''Server Error: '' @ e) w1))"

text \<open>\<^verbatim>\<open>POST /analyze\<close>: a body that does not fit the declared fields is answered by the
  framework (422) and the handler is not called.\<close>

definition post_analyze :: "service \<Rightarrow> json \<Rightarrow> world \<Rightarrow> response \<times> world" where
  "post_analyze svc body w =
     (case parse_request body of
        None \<Rightarrow> (RequestValidationError, w)
      | Some request \<Rightarrow> analyze_change svc request w)"

text \<open>The remote calls and the computing steps of a trace.\<close>

fun remote_calls :: "event list \<Rightarrow> remote_call list" where
  "remote_calls [] = []"
| "remote_calls (Remote c # es) = c # remote_calls es"
| "remote_calls (_ # es) = remote_calls es"

fun steps :: "event list \<Rightarrow> step list" where
  "steps [] = []"
| "steps (Compute s # es) = s # steps es"
| "steps (_ # es) = steps es"

text \<open>What the \<open>k\<close>-th remote call from now on will do.\<close>

definition fault_at :: "world \<Rightarrow> nat \<Rightarrow> string option" where
  "fault_at w k = (case drop k (faults w) of [] \<Rightarrow> None | f # _ \<Rightarrow> f)"

section \<open>A small service, for concrete executions\<close>

text \<open>
  A region of four pixels and a catalogue of four images over it: two of January (one
  clear, one too cloudy), one of July (too cloudy) and one of November. Water covers the
  pixels \<open>(0,0)\<close> and \<open>(0,1)\<close> in January, \<open>(0,1)\<close> and \<open>(1,1)\<close> in November. Dates are
  days of the year 2023. The geometry constructor accepts a polygon and rejects, as the
  client does, a dictionary without a geometry type.
\<close>

definition demo_region :: region where
  "demo_region = [(0, 0), (0, 1), (1, 0), (1, 1)]"

definition demo_scene :: "pixel list \<Rightarrow> pixel list \<Rightarrow> int \<Rightarrow> real \<Rightarrow> scene" where
  "demo_scene water clouds t c =
     \<lparr>bands = (\<lambda>b p.
         if b = ''B3'' then Some (if p \<in> set water then 3000 else 500)
         else if b = ''B8'' then Some (if p \<in> set water then 500 else 3000)
         else if b = ''QA60'' then Some (if p \<in> set clouds then 1024 else 0)
         else None),
      footprint = demo_region,
      time_start = t,
      cloudy_pixel_percentage = c\<rparr>"

definition demo_catalog :: "scene list" where
  "demo_catalog =
     [demo_scene [(0, 0), (0, 1)] [] 10 5,
      demo_scene [(0, 0), (0, 1)] [(1, 0)] 20 60,
      demo_scene [] [(0, 0), (0, 1), (1, 0)] 190 85,
      demo_scene [(0, 1), (1, 1)] [] 310 12]"

definition demo_geometry :: "(string \<times> json) list \<Rightarrow> string + region" where
  "demo_geometry g =
     (case json_field g ''type'' of
        Some (JString t) \<Rightarrow>
          if t = ''Polygon'' then Inr demo_region else Inl ''Invalid GeoJSON geometry.''
      | _ \<Rightarrow> Inl ''Invalid GeoJSON geometry.'')"

definition demo_parse_date :: "string \<Rightarrow> string + int" where
  "demo_parse_date s =
     (case map_of [(''2023-01-01'', 0), (''2023-02-01'', 31), (''2023-07-01'', 181),
                   (''2023-08-01'', 212), (''2023-11-01'', 304), (''2023-12-01'', 334)] s of
        Some t \<Rightarrow> Inr t
      | None \<Rightarrow> Inl (''Invalid date: '' @ s))"

text \<open>The frequency histogram of the classes 1, 2 and 3 over the region, under the name
  of the band; \<^verbatim>\<open>null\<close> when no pixel of the region is unmasked.\<close>

definition demo_count :: "band \<Rightarrow> region \<Rightarrow> real \<Rightarrow> real" where
  "demo_count b roi v = real (length (filter (\<lambda>p. pixels b p = Some v) roi))"

definition demo_reduce_region :: "band \<Rightarrow> region \<Rightarrow> (string \<times> histogram option) list" where
  "demo_reduce_region b roi =
     (let h = filter (\<lambda>(k, n). n \<noteq> 0)
                [(''1'', demo_count b roi 1), (''2'', demo_count b roi 2),
                 (''3'', demo_count b roi 3)]
      in [(band_name b, if h = [] then None else Some h)])"

definition demo_service :: service where
  "demo_service =
     \<lparr>geometry = demo_geometry,
      parse_date = demo_parse_date,
      catalog = demo_catalog,
      zero_sum = None,
      tile_url = (\<lambda>b. ''https://tiles.example/{z}/{x}/{y}''),
      reduce_region = demo_reduce_region\<rparr>"

definition demo_polygon :: "(string \<times> json) list" where
  "demo_polygon =
     [(''type'', JString ''Polygon''),
      (''coordinates'',
       JArray [JArray [JArray [JNumber 0, JNumber 0], JArray [JNumber 0, JNumber 2],
                       JArray [JNumber 2, JNumber 2], JArray [JNumber 0, JNumber 0]]])]"

definition demo_request :: "string \<Rightarrow> string \<Rightarrow> string \<Rightarrow> string \<Rightarrow> AnalysisRequest" where
  "demo_request s1 e1 s2 e2 =
     \<lparr>geojson = demo_polygon, date1_start = s1, date1_end = e1,
      date2_start = s2, date2_end = e2\<rparr>"

definition demo_body :: "(string \<times> json) list \<Rightarrow> json" where
  "demo_body g =
     JObject [(''geojson'', JObject g),
              (''date1_start'', JString ''2023-01-01''), (''date1_end'', JString ''2023-02-01''),
              (''date2_start'', JString ''2023-11-01''), (''date2_end'', JString ''2023-12-01'')]"

definition fresh :: "string option list \<Rightarrow> world" where
  "fresh fs = \<lparr>trace = [], faults = fs\<rparr>"

section \<open>The change detector\<close>

lemmas ee_band_defs =
  ee_Image_def ee_eq_def ee_gt_def ee_And_def ee_where_def ee_selfMask_def ee_rename_def

lemma satisfied_gain:
  "satisfied (gain_test w1 w2) p \<longleftrightarrow> pixels w1 p = Some 0 \<and> pixels w2 p = Some 1"
  by (auto simp: satisfied_def gain_test_def ee_band_defs split: option.splits)

lemma satisfied_loss:
  "satisfied (loss_test w1 w2) p \<longleftrightarrow> pixels w1 p = Some 1 \<and> pixels w2 p = Some 0"
  by (auto simp: satisfied_def loss_test_def ee_band_defs split: option.splits)

lemma satisfied_persistent:
  "satisfied (persistent_test w1 w2) p \<longleftrightarrow> pixels w1 p = Some 1 \<and> pixels w2 p = Some 1"
  by (auto simp: satisfied_def persistent_test_def ee_band_defs split: option.splits)

text \<open>The three rewrites are applied in order, the last one that matches wins; a pixel
  none of them matches keeps the value 0 and is masked by \<^verbatim>\<open>selfMask\<close>.\<close>

lemma change_pixel:
  "pixels (change w1 w2) p =
     (if satisfied (persistent_test w1 w2) p then Some 3
      else if satisfied (loss_test w1 w2) p then Some 2
      else if satisfied (gain_test w1 w2) p then Some 1
      else None)"
  by (auto simp: change_def satisfied_def ee_where_def ee_selfMask_def ee_Image_def
           split: option.splits)

lemma change_band_name: "band_name (change w1 w2) = ''constant''"
  by (simp add: change_def ee_where_def ee_selfMask_def ee_Image_def)

text \<open>
  Claim C1. For any two water masks and any pixel: no two of the three conditions
  (gain: water 0 then 1; loss: 1 then 0; persistent: 1 then 1) hold together; the change
  raster has the value 1, 2 or 3 exactly where the gain, the loss or the persistent
  condition holds, and is masked exactly where none holds; in particular a pixel
  without water in both periods (0 then 0) is masked, and carries neither 0 nor any
  other class.
\<close>

theorem change_classes_disjoint:
  "\<not> (satisfied (gain_test w1 w2) p \<and> satisfied (loss_test w1 w2) p) \<and>
   \<not> (satisfied (gain_test w1 w2) p \<and> satisfied (persistent_test w1 w2) p) \<and>
   \<not> (satisfied (loss_test w1 w2) p \<and> satisfied (persistent_test w1 w2) p) \<and>
   (satisfied (gain_test w1 w2) p \<longleftrightarrow> pixels w1 p = Some 0 \<and> pixels w2 p = Some 1) \<and>
   (satisfied (loss_test w1 w2) p \<longleftrightarrow> pixels w1 p = Some 1 \<and> pixels w2 p = Some 0) \<and>
   (satisfied (persistent_test w1 w2) p \<longleftrightarrow> pixels w1 p = Some 1 \<and> pixels w2 p = Some 1) \<and>
   (pixels (change w1 w2) p = Some 1 \<longleftrightarrow> satisfied (gain_test w1 w2) p) \<and>
   (pixels (change w1 w2) p = Some 2 \<longleftrightarrow> satisfied (loss_test w1 w2) p) \<and>
   (pixels (change w1 w2) p = Some 3 \<longleftrightarrow> satisfied (persistent_test w1 w2) p) \<and>
   (pixels (change w1 w2) p = None \<longleftrightarrow>
      \<not> satisfied (gain_test w1 w2) p \<and> \<not> satisfied (loss_test w1 w2) p
      \<and> \<not> satisfied (persistent_test w1 w2) p) \<and>
   (pixels w1 p = Some 0 \<and> pixels w2 p = Some 0 \<longrightarrow> pixels (change w1 w2) p = None)"
proof -
  have g: "satisfied (gain_test w1 w2) p \<longleftrightarrow> pixels w1 p = Some 0 \<and> pixels w2 p = Some 1"
    by (rule satisfied_gain)
  have l: "satisfied (loss_test w1 w2) p \<longleftrightarrow> pixels w1 p = Some 1 \<and> pixels w2 p = Some 0"
    by (rule satisfied_loss)
  have s: "satisfied (persistent_test w1 w2) p \<longleftrightarrow> pixels w1 p = Some 1 \<and> pixels w2 p = Some 1"
    by (rule satisfied_persistent)
  show ?thesis
    unfolding change_pixel g l s by auto
qed

text \<open>The masks of the clear January and November images of the small service: the
  pixel \<open>(1,0)\<close> is dry in both and masked in the change raster.\<close>

theorem change_classes_disjoint_witness:
  "pixels (classify_water demo_service (bands (demo_catalog ! 0)) 0) (1, 0) = Some 0 \<and>
   pixels (classify_water demo_service (bands (demo_catalog ! 3)) 0) (1, 0) = Some 0 \<and>
   pixels (change (classify_water demo_service (bands (demo_catalog ! 0)) 0)
                  (classify_water demo_service (bands (demo_catalog ! 3)) 0)) (1, 0) = None"
proof -
  let ?w1 = "classify_water demo_service (bands (demo_catalog ! 0)) 0"
  let ?w2 = "classify_water demo_service (bands (demo_catalog ! 3)) 0"
  have a: "pixels ?w1 (1, 0) = Some 0"
    by (simp add: classify_water_def calculate_ndwi_def ee_normalizedDifference_def
          nd_pixel_def ee_rename_def ee_gt_def demo_catalog_def demo_scene_def)
  have b: "pixels ?w2 (1, 0) = Some 0"
    by (simp add: classify_water_def calculate_ndwi_def ee_normalizedDifference_def
          nd_pixel_def ee_rename_def ee_gt_def demo_catalog_def demo_scene_def)
  from a b change_classes_disjoint [of ?w1 ?w2 "(1, 0)"] show ?thesis
    by blast
qed

section \<open>Traces, remote calls and the outcomes of a fetch\<close>

lemma remote_calls_append: "remote_calls (xs @ ys) = remote_calls xs @ remote_calls ys"
  by (induction xs rule: remote_calls.induct) simp_all

lemma steps_append: "steps (xs @ ys) = steps xs @ steps ys"
  by (induction xs rule: steps.induct) simp_all

lemma remote_eq:
  "remote c w = (fault_at w 0, w\<lparr>trace := trace w @ [Remote c], faults := tl (faults w)\<rparr>)"
  by (cases "faults w") (simp_all add: remote_def fault_at_def)

lemma fault_at_logger: "fault_at (logger l m w) k = fault_at w k"
  by (simp add: fault_at_def logger_def)

lemma fault_at_computed: "fault_at (computed s w) k = fault_at w k"
  by (simp add: fault_at_def computed_def)

lemma fault_at_remote: "fault_at (snd (remote c w)) k = fault_at w (Suc k)"
  by (cases "faults w") (simp_all add: remote_def fault_at_def)

lemma trace_remote: "trace (snd (remote c w)) = trace w @ [Remote c]"
  by (simp add: remote_eq)

lemma trace_logger: "trace (logger l m w) = trace w @ [Log l m]"
  by (simp add: logger_def)

lemma trace_computed: "trace (computed s w) = trace w @ [Compute s]"
  by (simp add: computed_def)

text \<open>What a fetch returns: the exception of the size query (raised by the call or by
  the evaluation of the collection), \<^verbatim>\<open>None\<close> for an empty collection, the mosaic
  otherwise.\<close>

lemma mosaic_result:
  "fst (get_sentinel_mosaic svc roi s d w) =
     (case fault_at w 0 of
        Some e \<Rightarrow> Inl e
      | None \<Rightarrow> (case s2_collection svc roi s d of
                   Inl e \<Rightarrow> Inl e
                 | Inr scenes \<Rightarrow>
                     if scenes = [] then Inr None
                     else Inr (Some (ee_clip (ee_median (ee_map mask_clouds scenes)) roi))))"
  by (simp add: get_sentinel_mosaic_def remote_eq Let_def split: option.splits sum.splits)

text \<open>What a fetch leaves in the trace: the size query, and the error it logged when it
  raised.\<close>

lemma mosaic_trace:
  "trace (snd (get_sentinel_mosaic svc roi s d w)) =
     trace w @ Remote (CollectionSize roi s d) #
       (case fst (get_sentinel_mosaic svc roi s d w) of
          Inl e \<Rightarrow> [Log ERROR (''Error fetching Sentinel data: '' @ e)]
        | Inr r \<Rightarrow> [])"
  by (simp add: get_sentinel_mosaic_def remote_eq logger_def Let_def
        split: option.splits sum.splits)

lemma mosaic_faults: "faults (snd (get_sentinel_mosaic svc roi s d w)) = tl (faults w)"
  by (simp add: get_sentinel_mosaic_def remote_eq logger_def Let_def
        split: option.splits sum.splits)

lemma fault_at_mosaic:
  "fault_at (snd (get_sentinel_mosaic svc roi s d w)) k = fault_at w (Suc k)"
  by (cases "faults w") (simp_all add: fault_at_def mosaic_faults)

text \<open>The handler's \<^verbatim>\<open>try\<close>, once the geometry is built, in terms of its two fetches.\<close>

lemma analyze_change_try_fetches:
  assumes "geometry svc (geojson request) = Inr roi"
    and "r1 = get_sentinel_mosaic svc roi (date1_start request) (date1_end request)
                (logger INFO (request_line request) w)"
    and "r2 = get_sentinel_mosaic svc roi (date2_start request) (date2_end request) (snd r1)"
  shows "analyze_change_try svc request w =
     (case fst r1 of
        Inl e \<Rightarrow> (Inl (Exception e), snd r1)
      | Inr img_t1 \<Rightarrow>
          (case fst r2 of
             Inl e \<Rightarrow> (Inl (Exception e), snd r2)
           | Inr img_t2 \<Rightarrow>
               (case img_t1 of
                  None \<Rightarrow> (Inl (HTTPException 404 (period1_detail request)), snd r2)
                | Some i1 \<Rightarrow>
                    (case img_t2 of
                       None \<Rightarrow> (Inl (HTTPException 404 (period2_detail request)), snd r2)
                     | Some i2 \<Rightarrow>
                         render_and_stats svc
                           (change (classify_water svc i1 0) (classify_water svc i2 0)) roi
                           (computed DetectChange
                              (computed ClassifyWater (computed ClassifyWater (snd r2))))))))"
proof -
  obtain a1 w1 where r1: "r1 = (a1, w1)" by (cases r1)
  obtain a2 w2 where r2: "r2 = (a2, w2)" by (cases r2)
  show ?thesis
    using assms(2,3) unfolding r1 r2
    by (simp add: analyze_change_try_def Let_def assms(1) split: prod.splits sum.splits)
      (metis snd_conv)
qed

section \<open>Facts of the small service\<close>

lemma demo_scene_fields:
  "footprint (demo_scene wt cl t c) = demo_region"
  "time_start (demo_scene wt cl t c) = t"
  "cloudy_pixel_percentage (demo_scene wt cl t c) = c"
  by (simp_all add: demo_scene_def)

lemma demo_region_nonempty: "\<exists>a b. (a, b) \<in> set demo_region"
  by (intro exI [of _ 0]) (simp add: demo_region_def)

lemma demo_filterBounds: "ee_filterBounds demo_region demo_catalog = demo_catalog"
  by (simp add: ee_filterBounds_def demo_catalog_def demo_scene_fields demo_region_nonempty)

lemma demo_january:
  "s2_collection demo_service demo_region ''2023-01-01'' ''2023-02-01'' =
     Inr [demo_scene [(0, 0), (0, 1)] [] 10 5]"
  by (simp add: s2_collection_def demo_service_def demo_parse_date_def demo_filterBounds)
     (simp add: ee_filterDate_def ee_filter_lt_cloudy_def demo_catalog_def demo_scene_fields)

lemma demo_july:
  "s2_collection demo_service demo_region ''2023-07-01'' ''2023-08-01'' = Inr []"
  by (simp add: s2_collection_def demo_service_def demo_parse_date_def demo_filterBounds)
     (simp add: ee_filterDate_def ee_filter_lt_cloudy_def demo_catalog_def demo_scene_fields)

lemma demo_november:
  "s2_collection demo_service demo_region ''2023-11-01'' ''2023-12-01'' =
     Inr [demo_scene [(0, 1), (1, 1)] [] 310 12]"
  by (simp add: s2_collection_def demo_service_def demo_parse_date_def demo_filterBounds)
     (simp add: ee_filterDate_def ee_filter_lt_cloudy_def demo_catalog_def demo_scene_fields)

lemma demo_geometry_polygon: "geometry demo_service demo_polygon = Inr demo_region"
  by (simp add: demo_service_def demo_geometry_def demo_polygon_def json_field_def)

lemma demo_geometry_empty: "geometry demo_service [] = Inl ''Invalid GeoJSON geometry.''"
  by (simp add: demo_service_def demo_geometry_def json_field_def)

lemma demo_request_fields:
  "geojson (demo_request s1 e1 s2 e2) = demo_polygon"
  "date1_start (demo_request s1 e1 s2 e2) = s1"
  "date1_end (demo_request s1 e1 s2 e2) = e1"
  "date2_start (demo_request s1 e1 s2 e2) = s2"
  "date2_end (demo_request s1 e1 s2 e2) = e2"
  by (simp_all add: demo_request_def)

lemma fresh_fields: "trace (fresh fs) = []" "faults (fresh fs) = fs"
  by (simp_all add: fresh_def)

section \<open>No data for a period\<close>

text \<open>
  Claim C9. Once the geometry is built and the Period-1 size query has answered zero
  images, the handler still issues the Period-2 size query: whatever that second fetch
  does, the remote calls of the execution are the two size queries, in this order, and
  the response comes after them. When the second query answers zero images too, the
  response is the 404 of Period 1, whose detail differs from that of Period 2.
\<close>

theorem second_fetch_after_empty_first:
  assumes geo: "geometry svc (geojson request) = Inr roi"
    and f0: "fault_at w 0 = None"
    and e1: "s2_collection svc roi (date1_start request) (date1_end request) = Inr []"
  shows "remote_calls (trace (snd (analyze_change svc request w))) =
           remote_calls (trace w) @
             [CollectionSize roi (date1_start request) (date1_end request),
              CollectionSize roi (date2_start request) (date2_end request)]
         \<and> (fault_at w 1 = None \<and>
            s2_collection svc roi (date2_start request) (date2_end request) = Inr []
            \<longrightarrow> fst (analyze_change svc request w) = HTTPError 404 (period1_detail request))
         \<and> period1_detail request \<noteq> period2_detail request"
proof -
  define w0 where "w0 = logger INFO (request_line request) w"
  define r1 where
    "r1 = get_sentinel_mosaic svc roi (date1_start request) (date1_end request) w0"
  define r2 where
    "r2 = get_sentinel_mosaic svc roi (date2_start request) (date2_end request) (snd r1)"
  have a1: "fst r1 = Inr None"
    unfolding r1_def w0_def by (simp add: mosaic_result fault_at_logger f0 e1)
  have t1: "trace (snd r1) =
              trace w @ [Log INFO (request_line request),
                         Remote (CollectionSize roi (date1_start request) (date1_end request))]"
    using a1 unfolding r1_def w0_def by (simp add: mosaic_trace trace_logger)
  have c2: "remote_calls (trace (snd r2)) =
              remote_calls (trace w) @
                [CollectionSize roi (date1_start request) (date1_end request),
                 CollectionSize roi (date2_start request) (date2_end request)]"
    unfolding r2_def by (simp add: mosaic_trace t1 remote_calls_append split: sum.splits)
  have body: "analyze_change_try svc request w =
                (case fst r2 of
                   Inl e \<Rightarrow> (Inl (Exception e), snd r2)
                 | Inr img_t2 \<Rightarrow> (Inl (HTTPException 404 (period1_detail request)), snd r2))"
    unfolding analyze_change_try_fetches [OF geo r1_def [unfolded w0_def] r2_def] a1
    by (cases "fst r2") simp_all
  have calls: "remote_calls (trace (snd (analyze_change svc request w))) =
           remote_calls (trace w) @
             [CollectionSize roi (date1_start request) (date1_end request),
              CollectionSize roi (date2_start request) (date2_end request)]"
    unfolding analyze_change_def body
    by (cases "fst r2") (simp_all add: c2 trace_logger remote_calls_append)
  have both: "fst (analyze_change svc request w) = HTTPError 404 (period1_detail request)"
    if "fault_at w 1 = None"
      and "s2_collection svc roi (date2_start request) (date2_end request) = Inr []"
  proof -
    have "fault_at (snd r1) 0 = None"
      unfolding r1_def w0_def using that(1) by (simp add: fault_at_mosaic fault_at_logger)
    then have "fst r2 = Inr None"
      unfolding r2_def using that(2) by (simp add: mosaic_result)
    then show ?thesis
      unfolding analyze_change_def body by simp
  qed
  have "period1_detail request \<noteq> period2_detail request"
    by (simp add: period1_detail_def period2_detail_def)
  with calls both show ?thesis by blast
qed

text \<open>Both periods in July, when the small service has no clear image.\<close>

theorem second_fetch_after_empty_first_witness:
  "geometry demo_service
     (geojson (demo_request ''2023-07-01'' ''2023-08-01'' ''2023-07-01'' ''2023-08-01''))
     = Inr demo_region \<and>
   fault_at (fresh []) 0 = None \<and>
   s2_collection demo_service demo_region ''2023-07-01'' ''2023-08-01'' = Inr [] \<and>
   remote_calls (trace (snd (analyze_change demo_service
       (demo_request ''2023-07-01'' ''2023-08-01'' ''2023-07-01'' ''2023-08-01'') (fresh [])))) =
     [CollectionSize demo_region ''2023-07-01'' ''2023-08-01'',
      CollectionSize demo_region ''2023-07-01'' ''2023-08-01''] \<and>
   fst (analyze_change demo_service
       (demo_request ''2023-07-01'' ''2023-08-01'' ''2023-07-01'' ''2023-08-01'') (fresh [])) =
     HTTPError 404
       (period1_detail (demo_request ''2023-07-01'' ''2023-08-01'' ''2023-07-01'' ''2023-08-01''))"
proof -
  let ?rq = "demo_request ''2023-07-01'' ''2023-08-01'' ''2023-07-01'' ''2023-08-01''"
  have g: "geometry demo_service (geojson ?rq) = Inr demo_region"
    by (simp only: demo_request_fields demo_geometry_polygon)
  have f0: "fault_at (fresh []) 0 = None"
    by (simp add: fault_at_def fresh_fields)
  have f1: "fault_at (fresh []) 1 = None"
    by (simp add: fault_at_def fresh_fields)
  have e1: "s2_collection demo_service demo_region (date1_start ?rq) (date1_end ?rq) = Inr []"
    by (simp only: demo_request_fields demo_july)
  have e2: "s2_collection demo_service demo_region (date2_start ?rq) (date2_end ?rq) = Inr []"
    by (simp only: demo_request_fields demo_july)
  from second_fetch_after_empty_first [OF g f0 e1] f1 e2
  have "remote_calls (trace (snd (analyze_change demo_service ?rq (fresh [])))) =
           remote_calls (trace (fresh [])) @
             [CollectionSize demo_region (date1_start ?rq) (date1_end ?rq),
              CollectionSize demo_region (date2_start ?rq) (date2_end ?rq)]"
    and "fst (analyze_change demo_service ?rq (fresh [])) = HTTPError 404 (period1_detail ?rq)"
    by blast+
  then show ?thesis
    using g f0 demo_july by (simp only: demo_request_fields fresh_fields remote_calls.simps append_Nil simp_thms)
qed

text \<open>The handler, once the geometry is built, in terms of its two fetches.\<close>

lemma analyze_change_fetches:
  assumes "geometry svc (geojson request) = Inr roi"
    and "r1 = get_sentinel_mosaic svc roi (date1_start request) (date1_end request)
                (logger INFO (request_line request) w)"
    and "r2 = get_sentinel_mosaic svc roi (date2_start request) (date2_end request) (snd r1)"
  shows "analyze_change svc request w =
     (case fst r1 of
        Inl e \<Rightarrow> (HTTPError 500 e, logger ERROR (''Server Error: '' @ e) (snd r1))
      | Inr img_t1 \<Rightarrow>
          (case fst r2 of
             Inl e \<Rightarrow> (HTTPError 500 e, logger ERROR (''Server Error: '' @ e) (snd r2))
           | Inr img_t2 \<Rightarrow>
               (case img_t1 of
                  None \<Rightarrow> (HTTPError 404 (period1_detail request), snd r2)
                | Some i1 \<Rightarrow>
                    (case img_t2 of
                       None \<Rightarrow> (HTTPError 404 (period2_detail request), snd r2)
                     | Some i2 \<Rightarrow>
                         (case render_and_stats svc
                                 (change (classify_water svc i1 0) (classify_water svc i2 0)) roi
                                 (computed DetectChange
                                    (computed ClassifyWater (computed ClassifyWater (snd r2)))) of
                            (Inr (url, st), w1) \<Rightarrow> (OK url st, w1)
                          | (Inl (HTTPException code detail), w1) \<Rightarrow> (HTTPError code detail, w1)
                          | (Inl (Exception e), w1) \<Rightarrow>
                              (HTTPError 500 e, logger ERROR (''Server Error: '' @ e) w1))))))"
  unfolding analyze_change_def analyze_change_try_fetches [OF assms]
  by (simp split: sum.splits option.splits)

text \<open>
  Claim C2, as the code has it. When the geometry is built and neither size query
  raises: if the Period-1 query answers zero images the response is 404 with the
  Period-1 detail (its two dates and its suggestion), and if it answers at least one
  image and the Period-2 query answers zero, 404 with the Period-2 detail. In both cases
  the execution logs the request, issues the two size queries and nothing else: no
  classification, no change detection, no rendering, no statistics.
\<close>

theorem no_data_gives_404:
  assumes geo: "geometry svc (geojson request) = Inr roi"
    and f0: "fault_at w 0 = None" and f1: "fault_at w 1 = None"
    and c1: "s2_collection svc roi (date1_start request) (date1_end request) = Inr scenes1"
    and c2: "s2_collection svc roi (date2_start request) (date2_end request) = Inr scenes2"
    and empty: "scenes1 = [] \<or> scenes2 = []"
  shows "fst (analyze_change svc request w) =
           HTTPError 404
             (if scenes1 = [] then
                ''No clear images found for Period 1 ('' @ date1_start request @ '' to ''
                  @ date1_end request @ ''). '' @ [CHR 0x0A]
                  @ ''Suggestion: Try a different month or expand the date range.''
              else
                ''No clear images found for Period 2 ('' @ date2_start request @ '' to ''
                  @ date2_end request @ ''). '' @ [CHR 0x0A]
                  @ ''Suggestion: Monsoon clouds might be blocking the view. Try ''
                  @ [CHR 0x27] @ ''November'' @ [CHR 0x27] @ '' or ''
                  @ [CHR 0x27] @ ''April'' @ [CHR 0x27] @ ''.'')
         \<and> trace (snd (analyze_change svc request w)) =
             trace w @
               [Log INFO (request_line request),
                Remote (CollectionSize roi (date1_start request) (date1_end request)),
                Remote (CollectionSize roi (date2_start request) (date2_end request))]
         \<and> steps (trace (snd (analyze_change svc request w))) = steps (trace w)"
proof -
  define r1 where
    "r1 = get_sentinel_mosaic svc roi (date1_start request) (date1_end request)
            (logger INFO (request_line request) w)"
  define r2 where
    "r2 = get_sentinel_mosaic svc roi (date2_start request) (date2_end request) (snd r1)"
  have a1: "fst r1 = (if scenes1 = [] then Inr None
                      else Inr (Some (ee_clip (ee_median (ee_map mask_clouds scenes1)) roi)))"
    unfolding r1_def by (simp add: mosaic_result fault_at_logger f0 c1)
  have f1': "fault_at (snd r1) 0 = None"
    unfolding r1_def using f1 by (simp add: fault_at_mosaic fault_at_logger)
  have a2: "fst r2 = (if scenes2 = [] then Inr None
                      else Inr (Some (ee_clip (ee_median (ee_map mask_clouds scenes2)) roi)))"
    unfolding r2_def by (simp add: mosaic_result f1' c2)
  have t1: "trace (snd r1) =
              trace w @ [Log INFO (request_line request),
                         Remote (CollectionSize roi (date1_start request) (date1_end request))]"
    using a1 unfolding r1_def by (simp add: mosaic_trace trace_logger split: if_splits)
  have t2: "trace (snd r2) =
              trace w @ [Log INFO (request_line request),
                         Remote (CollectionSize roi (date1_start request) (date1_end request)),
                         Remote (CollectionSize roi (date2_start request) (date2_end request))]"
    using a2 unfolding r2_def by (simp add: mosaic_trace t1 split: if_splits)
  have res: "analyze_change svc request w =
               (HTTPError 404 (if scenes1 = [] then period1_detail request
                               else period2_detail request), snd r2)"
    unfolding analyze_change_fetches [OF geo r1_def r2_def] a1 a2
    using empty by auto
  have st: "steps (trace (snd r2)) = steps (trace w)"
    unfolding t2 by (simp add: steps_append)
  show ?thesis
    unfolding res fst_conv snd_conv t2 [symmetric] st period1_detail_def period2_detail_def
    by simp
qed

text \<open>January against July on the small service: one clear image, then none.\<close>

theorem no_data_gives_404_witness:
  "geometry demo_service
     (geojson (demo_request ''2023-01-01'' ''2023-02-01'' ''2023-07-01'' ''2023-08-01''))
     = Inr demo_region \<and>
   fault_at (fresh []) 0 = None \<and> fault_at (fresh []) 1 = None \<and>
   s2_collection demo_service demo_region ''2023-01-01'' ''2023-02-01'' =
     Inr [demo_scene [(0, 0), (0, 1)] [] 10 5] \<and>
   s2_collection demo_service demo_region ''2023-07-01'' ''2023-08-01'' = Inr [] \<and>
   fst (analyze_change demo_service
          (demo_request ''2023-01-01'' ''2023-02-01'' ''2023-07-01'' ''2023-08-01'') (fresh [])) =
     HTTPError 404
       (''No clear images found for Period 2 (2023-07-01 to 2023-08-01). '' @ [CHR 0x0A]
          @ ''Suggestion: Monsoon clouds might be blocking the view. Try ''
          @ [CHR 0x27] @ ''November'' @ [CHR 0x27] @ '' or ''
          @ [CHR 0x27] @ ''April'' @ [CHR 0x27] @ ''.'') \<and>
   steps (trace (snd (analyze_change demo_service
          (demo_request ''2023-01-01'' ''2023-02-01'' ''2023-07-01'' ''2023-08-01'') (fresh []))))
     = []"
proof -
  let ?rq = "demo_request ''2023-01-01'' ''2023-02-01'' ''2023-07-01'' ''2023-08-01''"
  have g: "geometry demo_service (geojson ?rq) = Inr demo_region"
    by (simp only: demo_request_fields demo_geometry_polygon)
  have f0: "fault_at (fresh []) 0 = None" and f1: "fault_at (fresh []) 1 = None"
    by (simp_all add: fault_at_def fresh_fields)
  have c1: "s2_collection demo_service demo_region (date1_start ?rq) (date1_end ?rq) =
              Inr [demo_scene [(0, 0), (0, 1)] [] 10 5]"
    by (simp only: demo_request_fields demo_january)
  have c2: "s2_collection demo_service demo_region (date2_start ?rq) (date2_end ?rq) = Inr []"
    by (simp only: demo_request_fields demo_july)
  have e: "[demo_scene [(0, 0), (0, 1)] [] 10 5] = [] \<or> ([]::scene list) = []"
    by simp
  note r = no_data_gives_404 [OF g f0 f1 c1 c2 e]
  have "fst (analyze_change demo_service ?rq (fresh [])) =
     HTTPError 404
       (''No clear images found for Period 2 (2023-07-01 to 2023-08-01). '' @ [CHR 0x0A]
          @ ''Suggestion: Monsoon clouds might be blocking the view. Try ''
          @ [CHR 0x27] @ ''November'' @ [CHR 0x27] @ '' or ''
          @ [CHR 0x27] @ ''April'' @ [CHR 0x27] @ ''.'')"
    using r by (simp add: demo_request_fields)
  moreover have "steps (trace (snd (analyze_change demo_service ?rq (fresh [])))) = []"
    using r by (simp add: fresh_fields)
  ultimately show ?thesis
    using g f0 f1 demo_january demo_july by blast
qed

text \<open>
  The claim as the specification states it fails: on the small service, July against
  November, the Period-1 size query answers zero images and the second size query
  raises; the response is 500, not the 404 of Period 1.
\<close>

theorem no_data_counterexample:
  "geometry demo_service
     (geojson (demo_request ''2023-07-01'' ''2023-08-01'' ''2023-11-01'' ''2023-12-01''))
     = Inr demo_region \<and>
   fst (get_sentinel_mosaic demo_service demo_region ''2023-07-01'' ''2023-08-01''
          (logger INFO
             (request_line (demo_request ''2023-07-01'' ''2023-08-01'' ''2023-11-01'' ''2023-12-01''))
             (fresh [None, Some ''Computation timed out.''])))
     = Inr None \<and>
   fst (analyze_change demo_service
          (demo_request ''2023-07-01'' ''2023-08-01'' ''2023-11-01'' ''2023-12-01'')
          (fresh [None, Some ''Computation timed out.'']))
     = HTTPError 500 ''Computation timed out.'' \<and>
   status_code (fst (analyze_change demo_service
          (demo_request ''2023-07-01'' ''2023-08-01'' ''2023-11-01'' ''2023-12-01'')
          (fresh [None, Some ''Computation timed out.''])))
     \<noteq> 404"
proof -
  let ?rq = "demo_request ''2023-07-01'' ''2023-08-01'' ''2023-11-01'' ''2023-12-01''"
  let ?w = "fresh [None, Some ''Computation timed out.'']"
  define r1 where
    "r1 = get_sentinel_mosaic demo_service demo_region (date1_start ?rq) (date1_end ?rq)
            (logger INFO (request_line ?rq) ?w)"
  define r2 where
    "r2 = get_sentinel_mosaic demo_service demo_region (date2_start ?rq) (date2_end ?rq) (snd r1)"
  have g: "geometry demo_service (geojson ?rq) = Inr demo_region"
    by (simp only: demo_request_fields demo_geometry_polygon)
  have f0: "fault_at ?w 0 = None" and f1: "fault_at ?w 1 = Some ''Computation timed out.''"
    by (simp_all add: fault_at_def fresh_fields)
  have a1: "fst r1 = Inr None"
    unfolding r1_def by (simp add: mosaic_result fault_at_logger f0 demo_request_fields demo_july)
  have a2: "fst r2 = Inl ''Computation timed out.''"
    unfolding r2_def r1_def using f1 by (simp add: mosaic_result fault_at_mosaic fault_at_logger)
  have res: "fst (analyze_change demo_service ?rq ?w) = HTTPError 500 ''Computation timed out.''"
    unfolding analyze_change_fetches [OF g r1_def r2_def] a1 a2 by simp
  have first: "fst (get_sentinel_mosaic demo_service demo_region ''2023-07-01'' ''2023-08-01''
          (logger INFO (request_line ?rq) ?w)) = Inr None"
    using a1 unfolding r1_def by (simp only: demo_request_fields)
  show ?thesis
    using g first res by simp
qed

section \<open>Exceptions\<close>





section \<open>Area statistics\<close>

lemma s2_collection_reduce_region:
  "s2_collection (svc\<lparr>reduce_region := f\<rparr>) roi s d = s2_collection svc roi s d"
  by (simp add: s2_collection_def split: sum.splits)

lemma faults_computed: "faults (computed s w) = faults w"
  by (simp add: computed_def)

lemma faults_logger: "faults (logger l m w) = faults w"
  by (simp add: logger_def)

lemma render_and_stats_quiet:
  assumes "faults w = []"
  shows "fst (render_and_stats svc chg roi w) =
           (case dict_get (reduce_region svc chg roi) ''constant'' (Some []) of
              None \<Rightarrow> Inl (Exception none_has_no_get)
            | Some histogram \<Rightarrow>
                Inr (tile_url svc chg,
                     \<lparr>gain_sqkm = float_mul (dict_get histogram ''1'' 0) pixel_area_sqkm,
                      loss_sqkm = float_mul (dict_get histogram ''2'' 0) pixel_area_sqkm,
                      persistent_sqkm =
                        float_mul (dict_get histogram ''3'' 0) pixel_area_sqkm\<rparr>))"
  using assms
  by (simp add: render_and_stats_def remote_def Let_def split: option.splits)

text \<open>What rendering and statistics return when they succeed.\<close>

lemma render_and_stats_success:
  assumes "render_and_stats svc chg roi w = (Inr (url, st), w1)"
  shows "\<exists>histogram.
           dict_get (reduce_region svc chg roi) ''constant'' (Some []) = Some histogram \<and>
           url = tile_url svc chg \<and>
           st = \<lparr>gain_sqkm = float_mul (dict_get histogram ''1'' 0) pixel_area_sqkm,
                 loss_sqkm = float_mul (dict_get histogram ''2'' 0) pixel_area_sqkm,
                 persistent_sqkm = float_mul (dict_get histogram ''3'' 0) pixel_area_sqkm\<rparr>"
  using assms
  by (auto simp: render_and_stats_def remote_eq Let_def split: option.splits)

text \<open>Evaluating the rounding: the search for the binade, one step at a time.\<close>

lemma binade_from_numeral:
  "binade_from (numeral k) e x =
     (if 2 \<le> x then binade_from (pred_numeral k) (e + 1) (x / 2)
      else if x < 1 then binade_from (pred_numeral k) (e - 1) (2 * x)
      else e)"
  by (simp add: numeral_eq_Suc)

lemmas fl_eval = fl_def binade_def binade_from_numeral pow2_def round_half_even_def Let_def

lemma fl_zero: "fl 0 = 0"
  by (simp add: fl_def)

lemma float_mul_zero: "float_mul 0 b = 0"
  by (simp add: float_mul_def fl_zero)

text \<open>The area of a pixel, \<^verbatim>\<open>(10 * 10) / 1e6\<close>, is the float \<^verbatim>\<open>0.0001\<close>: the float nearest
  to one ten-thousandth, which is not one ten-thousandth.\<close>

lemma pixel_area_float: "pixel_area_sqkm = 7378697629483821 / 2 ^ 66"
proof -
  have "fl 100 = 100" and "fl 1000000 = 1000000"
    by (simp_all add: fl_eval)
  then have "pixel_area_sqkm = fl (1 / 10000)"
    by (simp add: pixel_area_sqkm_def float_div_def)
  also have "\<dots> = 7378697629483821 / 2 ^ 66"
    by (simp add: fl_eval)
  finally show ?thesis .
qed

lemma fl_pixel_area: "fl (7378697629483821 / 2 ^ 66) = 7378697629483821 / 2 ^ 66"
  by (simp add: fl_eval)

lemma area_of_3: "float_mul 3 pixel_area_sqkm = 2767011611056433 / 2 ^ 63"
proof -
  have "fl 3 = 3"
    by (simp add: fl_eval)
  then have "float_mul 3 pixel_area_sqkm = fl (3 * (7378697629483821 / 2 ^ 66))"
    by (simp only: float_mul_def pixel_area_float fl_pixel_area)
  also have "\<dots> = 2767011611056433 / 2 ^ 63"
    by (simp add: fl_eval)
  finally show ?thesis .
qed

lemma area_of_250: "float_mul 250 pixel_area_sqkm = 3602879701896397 / 2 ^ 57"
proof -
  have "fl 250 = 250"
    by (simp add: fl_eval)
  then have "float_mul 250 pixel_area_sqkm = fl (250 * (7378697629483821 / 2 ^ 66))"
    by (simp only: float_mul_def pixel_area_float fl_pixel_area)
  also have "\<dots> = 3602879701896397 / 2 ^ 57"
    by (simp add: fl_eval)
  finally show ?thesis .
qed

lemma area_of_1000: "float_mul 1000 pixel_area_sqkm = 3602879701896397 / 2 ^ 55"
proof -
  have "fl 1000 = 1000"
    by (simp add: fl_eval)
  then have "float_mul 1000 pixel_area_sqkm = fl (1000 * (7378697629483821 / 2 ^ 66))"
    by (simp only: float_mul_def pixel_area_float fl_pixel_area)
  also have "\<dots> = 3602879701896397 / 2 ^ 55"
    by (simp add: fl_eval)
  finally show ?thesis .
qed

text \<open>A success response of the small service whose statistics step is made to answer a
  given histogram, January against November.\<close>

lemma demo_success:
  "fst (analyze_change
          (demo_service\<lparr>reduce_region := (\<lambda>b r. [(''constant'', Some h)])\<rparr>)
          (demo_request ''2023-01-01'' ''2023-02-01'' ''2023-11-01'' ''2023-12-01'')
          (fresh []))
     = OK ''https://tiles.example/{z}/{x}/{y}''
         \<lparr>gain_sqkm = float_mul (dict_get h ''1'' 0) pixel_area_sqkm,
          loss_sqkm = float_mul (dict_get h ''2'' 0) pixel_area_sqkm,
          persistent_sqkm = float_mul (dict_get h ''3'' 0) pixel_area_sqkm\<rparr>"
proof -
  let ?svc = "demo_service\<lparr>reduce_region := (\<lambda>b r. [(''constant'', Some h)])\<rparr>"
  let ?rq = "demo_request ''2023-01-01'' ''2023-02-01'' ''2023-11-01'' ''2023-12-01''"
  let ?st = "\<lparr>gain_sqkm = float_mul (dict_get h ''1'' 0) pixel_area_sqkm,
              loss_sqkm = float_mul (dict_get h ''2'' 0) pixel_area_sqkm,
              persistent_sqkm = float_mul (dict_get h ''3'' 0) pixel_area_sqkm\<rparr>"
  define r1 where
    "r1 = get_sentinel_mosaic ?svc demo_region (date1_start ?rq) (date1_end ?rq)
            (logger INFO (request_line ?rq) (fresh []))"
  define r2 where
    "r2 = get_sentinel_mosaic ?svc demo_region (date2_start ?rq) (date2_end ?rq) (snd r1)"
  have g: "geometry ?svc (geojson ?rq) = Inr demo_region"
    using demo_geometry_polygon by (simp add: demo_request_fields demo_service_def)
  have q1: "faults (snd r1) = []"
    unfolding r1_def by (simp add: mosaic_faults faults_logger fresh_fields)
  have q2: "faults (snd r2) = []"
    unfolding r2_def by (simp add: mosaic_faults q1)
  have a1: "\<exists>i1. fst r1 = Inr (Some i1)"
    unfolding r1_def
    by (simp add: mosaic_result fault_at_def faults_logger fresh_fields demo_request_fields
          s2_collection_reduce_region demo_january)
  have a2: "\<exists>i2. fst r2 = Inr (Some i2)"
    unfolding r2_def
    by (simp add: mosaic_result fault_at_def q1 demo_request_fields
          s2_collection_reduce_region demo_november)
  from a1 a2 obtain i1 i2 where i: "fst r1 = Inr (Some i1)" "fst r2 = Inr (Some i2)"
    by blast
  have "fst (render_and_stats ?svc (change (classify_water ?svc i1 0) (classify_water ?svc i2 0))
               demo_region
               (computed DetectChange (computed ClassifyWater (computed ClassifyWater (snd r2)))))
          = Inr (''https://tiles.example/{z}/{x}/{y}'', ?st)"
    by (subst render_and_stats_quiet)
       (simp_all add: faults_computed q2 dict_get_def demo_service_def)
  then obtain wz where full:
    "render_and_stats ?svc (change (classify_water ?svc i1 0) (classify_water ?svc i2 0))
       demo_region
       (computed DetectChange (computed ClassifyWater (computed ClassifyWater (snd r2))))
     = (Inr (''https://tiles.example/{z}/{x}/{y}'', ?st), wz)"
    by (metis prod.collapse)
  show ?thesis
    unfolding analyze_change_fetches [OF g r1_def r2_def] i
    by (simp add: full)
qed

text \<open>
  Claim C3, as the code has it. In every success response, each of the three areas is
  the product, in float arithmetic, of the count that the histogram of the statistics
  step holds for the class (under the keys \<^verbatim>\<open>1\<close>, \<^verbatim>\<open>2\<close>, \<^verbatim>\<open>3\<close>; 0 when the key is missing)
  and the area of a pixel, \<^verbatim>\<open>(10 * 10) / 1e6\<close>. That area is the float nearest to 0.0001,
  \<open>7378697629483821 / 2 ^ 66\<close>, within \<open>1 / 2 ^ 67\<close> of it, and the product is rounded to
  the nearest float. A class without a key in the histogram has the area 0 exactly;
  the three fields are always there. The histogram is the one the service returns
  under \<^verbatim>\<open>constant\<close> for the change raster of the two mosaics, or the empty one when that
  key is missing.
\<close>

theorem area_statistics:
  "pixel_area_sqkm = 7378697629483821 / 2 ^ 66 \<and>
   \<bar>pixel_area_sqkm - 0.0001\<bar> < 1 / 2 ^ 67 \<and>
   (fst (analyze_change svc request w) = OK url st \<longrightarrow>
      (\<exists>roi i1 i2 histogram.
         geometry svc (geojson request) = Inr roi \<and>
         dict_get
           (reduce_region svc (change (classify_water svc i1 0) (classify_water svc i2 0)) roi)
           ''constant'' (Some []) = Some histogram \<and>
         gain_sqkm st =
           (case map_of histogram ''1'' of
              None \<Rightarrow> 0 | Some n \<Rightarrow> fl (fl n * pixel_area_sqkm)) \<and>
         loss_sqkm st =
           (case map_of histogram ''2'' of
              None \<Rightarrow> 0 | Some n \<Rightarrow> fl (fl n * pixel_area_sqkm)) \<and>
         persistent_sqkm st =
           (case map_of histogram ''3'' of
              None \<Rightarrow> 0 | Some n \<Rightarrow> fl (fl n * pixel_area_sqkm))))"
proof -
  have px: "pixel_area_sqkm = 7378697629483821 / 2 ^ 66"
    by (rule pixel_area_float)
  have near: "\<bar>pixel_area_sqkm - 0.0001\<bar> < 1 / 2 ^ 67"
    unfolding px by simp
  have area: "float_mul (dict_get h k 0) pixel_area_sqkm =
                (case map_of h k of None \<Rightarrow> 0 | Some n \<Rightarrow> fl (fl n * pixel_area_sqkm))"
    for h :: histogram and k
  proof (cases "map_of h k")
    case None
    then show ?thesis
      by (simp add: dict_get_def float_mul_zero)
  next
    case (Some n)
    then show ?thesis
      by (simp only: dict_get_def float_mul_def option.case px fl_pixel_area)
  qed
  have ok: "\<exists>roi i1 i2 histogram.
         geometry svc (geojson request) = Inr roi \<and>
         dict_get
           (reduce_region svc (change (classify_water svc i1 0) (classify_water svc i2 0)) roi)
           ''constant'' (Some []) = Some histogram \<and>
         gain_sqkm st =
           (case map_of histogram ''1'' of
              None \<Rightarrow> 0 | Some n \<Rightarrow> fl (fl n * pixel_area_sqkm)) \<and>
         loss_sqkm st =
           (case map_of histogram ''2'' of
              None \<Rightarrow> 0 | Some n \<Rightarrow> fl (fl n * pixel_area_sqkm)) \<and>
         persistent_sqkm st =
           (case map_of histogram ''3'' of
              None \<Rightarrow> 0 | Some n \<Rightarrow> fl (fl n * pixel_area_sqkm))"
    if success: "fst (analyze_change svc request w) = OK url st"
  proof (cases "geometry svc (geojson request)")
    case (Inl e)
    with success show ?thesis
      by (simp add: analyze_change_def analyze_change_try_def Let_def)
  next
    case (Inr roi)
    define r1 where
      "r1 = get_sentinel_mosaic svc roi (date1_start request) (date1_end request)
              (logger INFO (request_line request) w)"
    define r2 where
      "r2 = get_sentinel_mosaic svc roi (date2_start request) (date2_end request) (snd r1)"
    from success obtain i1 i2 w1 where
      "render_and_stats svc (change (classify_water svc i1 0) (classify_water svc i2 0)) roi
         (computed DetectChange (computed ClassifyWater (computed ClassifyWater (snd r2))))
       = (Inr (url, st), w1)"
      unfolding analyze_change_fetches [OF Inr r1_def r2_def]
      by (auto split: sum.splits option.splits prod.splits exn.splits)
    from render_and_stats_success [OF this] obtain histogram where
      h: "dict_get
            (reduce_region svc (change (classify_water svc i1 0) (classify_water svc i2 0)) roi)
            ''constant'' (Some []) = Some histogram"
      and st: "st = \<lparr>gain_sqkm = float_mul (dict_get histogram ''1'' 0) pixel_area_sqkm,
                     loss_sqkm = float_mul (dict_get histogram ''2'' 0) pixel_area_sqkm,
                     persistent_sqkm =
                       float_mul (dict_get histogram ''3'' 0) pixel_area_sqkm\<rparr>"
      by blast
    show ?thesis
      using Inr h unfolding st by (auto simp: area)
  qed
  from px near ok show ?thesis by blast
qed

text \<open>January against November on the small service, whose statistics step is here made to
  answer a histogram without the class 2: the areas are the floats \<^verbatim>\<open>0.025\<close>, \<^verbatim>\<open>0.0\<close> and
  \<^verbatim>\<open>0.1\<close>.\<close>

theorem area_statistics_witness:
  "fst (analyze_change
          (demo_service\<lparr>reduce_region :=
             (\<lambda>b r. [(''constant'', Some [(''1'', 250), (''3'', 1000)])])\<rparr>)
          (demo_request ''2023-01-01'' ''2023-02-01'' ''2023-11-01'' ''2023-12-01'')
          (fresh []))
     = OK ''https://tiles.example/{z}/{x}/{y}''
         \<lparr>gain_sqkm = 3602879701896397 / 2 ^ 57, loss_sqkm = 0,
          persistent_sqkm = 3602879701896397 / 2 ^ 55\<rparr> \<and>
   fl (fl 250 * pixel_area_sqkm) = 3602879701896397 / 2 ^ 57 \<and>
   fl (fl 1000 * pixel_area_sqkm) = 3602879701896397 / 2 ^ 55"
proof -
  let ?svc = "demo_service\<lparr>reduce_region :=
                 (\<lambda>b r. [(''constant'', Some [(''1'', 250), (''3'', 1000)])])\<rparr>"
  let ?rq = "demo_request ''2023-01-01'' ''2023-02-01'' ''2023-11-01'' ''2023-12-01''"
  let ?st = "\<lparr>gain_sqkm = 3602879701896397 / 2 ^ 57, loss_sqkm = 0,
              persistent_sqkm = 3602879701896397 / 2 ^ 55\<rparr>"
  have succ: "fst (analyze_change ?svc ?rq (fresh [])) = OK ''https://tiles.example/{z}/{x}/{y}'' ?st"
    unfolding demo_success
    by (simp add: dict_get_def area_of_250 area_of_1000 float_mul_zero)
  from area_statistics [of ?svc ?rq "fresh []" "''https://tiles.example/{z}/{x}/{y}''" ?st] succ
  obtain roi i1 i2 histogram where
    h: "dict_get
          (reduce_region ?svc (change (classify_water ?svc i1 0) (classify_water ?svc i2 0)) roi)
          ''constant'' (Some []) = Some histogram"
    and g: "gain_sqkm ?st =
              (case map_of histogram ''1'' of
                 None \<Rightarrow> 0 | Some n \<Rightarrow> fl (fl n * pixel_area_sqkm))"
    and p: "persistent_sqkm ?st =
              (case map_of histogram ''3'' of
                 None \<Rightarrow> 0 | Some n \<Rightarrow> fl (fl n * pixel_area_sqkm))"
    by blast
  from h have "histogram = [(''1'', 250), (''3'', 1000)]"
    by (simp add: dict_get_def)
  with g p have "fl (fl 250 * pixel_area_sqkm) = 3602879701896397 / 2 ^ 57"
    and "fl (fl 1000 * pixel_area_sqkm) = 3602879701896397 / 2 ^ 55"
    by simp_all
  with succ show ?thesis
    by (intro conjI)
qed

text \<open>
  The claim as the specification states it fails: for a histogram that counts 3 pixels of
  gain, the area reported is the float \<^verbatim>\<open>0.00030000000000000003\<close>,
  \<open>2767011611056433 / 2 ^ 63\<close>, which is neither 3 times 0.0001 nor 3 times the area of a
  pixel that the program holds.
\<close>

theorem area_not_exact_counterexample:
  "fst (analyze_change
          (demo_service\<lparr>reduce_region := (\<lambda>b r. [(''constant'', Some [(''1'', 3)])])\<rparr>)
          (demo_request ''2023-01-01'' ''2023-02-01'' ''2023-11-01'' ''2023-12-01'')
          (fresh []))
     = OK ''https://tiles.example/{z}/{x}/{y}''
         \<lparr>gain_sqkm = 2767011611056433 / 2 ^ 63, loss_sqkm = 0, persistent_sqkm = 0\<rparr> \<and>
   (2767011611056433 / 2 ^ 63 :: real) \<noteq> 3 * 0.0001 \<and>
   2767011611056433 / 2 ^ 63 \<noteq> 3 * pixel_area_sqkm"
proof -
  have "fst (analyze_change
          (demo_service\<lparr>reduce_region := (\<lambda>b r. [(''constant'', Some [(''1'', 3)])])\<rparr>)
          (demo_request ''2023-01-01'' ''2023-02-01'' ''2023-11-01'' ''2023-12-01'')
          (fresh []))
     = OK ''https://tiles.example/{z}/{x}/{y}''
         \<lparr>gain_sqkm = 2767011611056433 / 2 ^ 63, loss_sqkm = 0, persistent_sqkm = 0\<rparr>"
    unfolding demo_success
    by (simp add: dict_get_def area_of_3 float_mul_zero)
  moreover have "(2767011611056433 / 2 ^ 63 :: real) \<noteq> 3 * 0.0001"
    by simp
  moreover have "2767011611056433 / 2 ^ 63 \<noteq> 3 * pixel_area_sqkm"
    unfolding pixel_area_float by simp
  ultimately show ?thesis
    by (intro conjI)
qed

section \<open>Malformed requests\<close>

text \<open>
  Claim C8, as the code has it. A body that does not fit the declared fields is answered
  with 422 and the handler is not called: the world is unchanged, so nothing is logged
  and no remote call is issued. A body that fits them, with a geometry that the geometry
  constructor rejects, fails before any remote call too, but the handler's catch-all
  answers 500 with the message of the exception, after logging the request and the
  error.
\<close>

theorem malformed_request:
  "(parse_request body = None \<longrightarrow>
      post_analyze svc body w = (RequestValidationError, w) \<and>
      status_code (fst (post_analyze svc body w)) = 422) \<and>
   (parse_request body = Some request \<and> geometry svc (geojson request) = Inl e \<longrightarrow>
      post_analyze svc body w =
        (HTTPError 500 e,
         w\<lparr>trace := trace w @ [Log INFO (request_line request),
                                 Log ERROR (''Server Error: '' @ e)]\<rparr>) \<and>
      remote_calls (trace (snd (post_analyze svc body w))) = remote_calls (trace w))"
proof -
  have rejected: "post_analyze svc body w = (RequestValidationError, w)"
    if "parse_request body = None"
    using that by (simp add: post_analyze_def)
  have geometry: "post_analyze svc body w =
        (HTTPError 500 e,
         w\<lparr>trace := trace w @ [Log INFO (request_line request),
                                 Log ERROR (''Server Error: '' @ e)]\<rparr>)"
    if "parse_request body = Some request" and "geometry svc (geojson request) = Inl e"
    using that
    by (simp add: post_analyze_def analyze_change_def analyze_change_try_def logger_def)
  have quiet: "remote_calls (trace (snd (post_analyze svc body w))) = remote_calls (trace w)"
    if "parse_request body = Some request" and "geometry svc (geojson request) = Inl e"
    unfolding geometry [OF that] by (simp add: remote_calls_append)
  from rejected geometry quiet show ?thesis
    by simp
qed

lemma demo_body_parses:
  "parse_request (demo_body g) =
     Some \<lparr>geojson = g, date1_start = ''2023-01-01'', date1_end = ''2023-02-01'',
           date2_start = ''2023-11-01'', date2_end = ''2023-12-01''\<rparr>"
  by (simp add: parse_request_def demo_body_def dict_field_def str_field_def json_field_def)

text \<open>A body that is not an object, and a body whose \<^verbatim>\<open>geojson\<close> is the empty
  dictionary.\<close>

theorem malformed_request_witness:
  "parse_request (JString ''polygon'') = None \<and>
   post_analyze demo_service (JString ''polygon'') (fresh []) = (RequestValidationError, fresh []) \<and>
   parse_request (demo_body []) =
     Some \<lparr>geojson = [], date1_start = ''2023-01-01'', date1_end = ''2023-02-01'',
           date2_start = ''2023-11-01'', date2_end = ''2023-12-01''\<rparr> \<and>
   geometry demo_service [] = Inl ''Invalid GeoJSON geometry.'' \<and>
   fst (post_analyze demo_service (demo_body []) (fresh [])) =
     HTTPError 500 ''Invalid GeoJSON geometry.'' \<and>
   remote_calls (trace (snd (post_analyze demo_service (demo_body []) (fresh [])))) = []"
proof -
  let ?rq = "\<lparr>geojson = [], date1_start = ''2023-01-01'', date1_end = ''2023-02-01'',
           date2_start = ''2023-11-01'', date2_end = ''2023-12-01''\<rparr>"
  have p0: "parse_request (JString ''polygon'') = None"
    by (simp add: parse_request_def)
  have p1: "parse_request (demo_body []) = Some ?rq"
    by (rule demo_body_parses)
  have g: "geometry demo_service (geojson ?rq) = Inl ''Invalid GeoJSON geometry.''"
    using demo_geometry_empty by simp
  from malformed_request [of "JString ''polygon''" demo_service "fresh []"] p0
  have a: "post_analyze demo_service (JString ''polygon'') (fresh []) =
             (RequestValidationError, fresh [])"
    by blast
  from malformed_request
         [of "demo_body []" demo_service "fresh []" ?rq "''Invalid GeoJSON geometry.''"] p1 g
  have bc: "post_analyze demo_service (demo_body []) (fresh []) =
              (HTTPError 500 ''Invalid GeoJSON geometry.'',
               (fresh [])\<lparr>trace := trace (fresh []) @
                  [Log INFO (request_line ?rq),
                   Log ERROR (''Server Error: '' @ ''Invalid GeoJSON geometry.'')]\<rparr>) \<and>
            remote_calls (trace (snd (post_analyze demo_service (demo_body []) (fresh [])))) =
              remote_calls (trace (fresh []))"
    by blast
  have b: "fst (post_analyze demo_service (demo_body []) (fresh [])) =
             HTTPError 500 ''Invalid GeoJSON geometry.''"
    by (simp only: conjunct1 [OF bc] fst_conv)
  have c: "remote_calls (trace (snd (post_analyze demo_service (demo_body []) (fresh [])))) =
              remote_calls (trace (fresh []))"
    by (rule conjunct2 [OF bc])
  from p0 a p1 demo_geometry_empty b c show ?thesis
    by (simp only: fresh_fields remote_calls.simps simp_thms)
qed

text \<open>
  The claim as the specification states it fails: the body whose \<^verbatim>\<open>geojson\<close> is the empty
  dictionary fits the declared fields, its geometry is rejected, and the answer is 500,
  which is not a client error.
\<close>

theorem malformed_geometry_counterexample:
  "parse_request (demo_body []) =
     Some \<lparr>geojson = [], date1_start = ''2023-01-01'', date1_end = ''2023-02-01'',
           date2_start = ''2023-11-01'', date2_end = ''2023-12-01''\<rparr> \<and>
   geometry demo_service [] = Inl ''Invalid GeoJSON geometry.'' \<and>
   status_code (fst (post_analyze demo_service (demo_body []) (fresh []))) = 500 \<and>
   \<not> (400 \<le> status_code (fst (post_analyze demo_service (demo_body []) (fresh []))) \<and>
      status_code (fst (post_analyze demo_service (demo_body []) (fresh []))) < 500)"
proof -
  have "fst (post_analyze demo_service (demo_body []) (fresh [])) =
          HTTPError 500 ''Invalid GeoJSON geometry.''"
    by (simp add: post_analyze_def demo_body_parses analyze_change_def analyze_change_try_def
          demo_geometry_empty)
  then show ?thesis
    using demo_body_parses [of "[]"] demo_geometry_empty by simp
qed

section \<open>The water classifier\<close>

lemma ndwi_pixel:
  "pixels (calculate_ndwi svc img) p = nd_pixel (zero_sum svc) (img ''B3'' p) (img ''B8'' p)"
  by (simp add: calculate_ndwi_def ee_normalizedDifference_def ee_rename_def)

lemma water_pixel:
  "pixels (classify_water svc img t) p =
     map_option (\<lambda>x. if t < x then 1 else 0) (pixels (calculate_ndwi svc img) p)"
  by (simp add: classify_water_def ee_gt_def ee_rename_def)

lemma demo_bands:
  "bands (demo_scene wt cl t c) ''B3'' p = Some (if p \<in> set wt then 3000 else 500)"
  "bands (demo_scene wt cl t c) ''B8'' p = Some (if p \<in> set wt then 500 else 3000)"
  "bands (demo_scene wt cl t c) ''QA60'' p = Some (if p \<in> set cl then 1024 else 0)"
  by (simp_all add: demo_scene_def)

text \<open>
  Claim C7. The classifier is a function of the composite alone (it takes no world and
  returns none: it logs nothing and calls nothing remote; the service enters only
  through its fixed answer to a zero denominator). The index is the normalized
  difference of the bands \<^verbatim>\<open>B3\<close> (green) and \<^verbatim>\<open>B8\<close> (near infrared), in a band named
  \<^verbatim>\<open>NDWI\<close>: \<open>(B3 - B8) / (B3 + B8)\<close> where both are unmasked, not negative and not both
  zero. The mask, in a band named \<^verbatim>\<open>water\<close>, compares the index with the threshold: it
  is masked where the index is, and 1 or 0 elsewhere; two composites with the same
  \<^verbatim>\<open>B3\<close> and \<^verbatim>\<open>B8\<close> have the same mask; the default threshold is 0.
\<close>

theorem water_classifier:
  "band_name (calculate_ndwi svc img) = ''NDWI'' \<and>
   band_name (classify_water svc img t) = ''water'' \<and>
   (img ''B3'' p = Some g \<and> img ''B8'' p = Some n \<and> 0 \<le> g \<and> 0 \<le> n \<and> g + n \<noteq> 0 \<longrightarrow>
      pixels (calculate_ndwi svc img) p = Some ((g - n) / (g + n))) \<and>
   pixels (classify_water svc img t) p =
     (case pixels (calculate_ndwi svc img) p of
        None \<Rightarrow> None
      | Some x \<Rightarrow> Some (if x > t then 1 else 0)) \<and>
   pixels (classify_water svc img t) p \<in> {None, Some 0, Some 1} \<and>
   (img ''B3'' = img' ''B3'' \<and> img ''B8'' = img' ''B8'' \<longrightarrow>
      classify_water svc img t = classify_water svc img' t) \<and>
   classify_water_default svc img = classify_water svc img 0"
proof -
  have names: "band_name (calculate_ndwi svc img) = ''NDWI''"
    "band_name (classify_water svc img t) = ''water''"
    by (simp_all add: calculate_ndwi_def classify_water_def ee_rename_def)
  have index: "pixels (calculate_ndwi svc img) p = Some ((g - n) / (g + n))"
    if "img ''B3'' p = Some g" "img ''B8'' p = Some n" "0 \<le> g" "0 \<le> n" "g + n \<noteq> 0"
    using that by (simp add: ndwi_pixel nd_pixel_def)
  have compare: "pixels (classify_water svc img t) p =
     (case pixels (calculate_ndwi svc img) p of
        None \<Rightarrow> None
      | Some x \<Rightarrow> Some (if x > t then 1 else 0))"
    by (simp add: water_pixel split: option.splits)
  have binary: "pixels (classify_water svc img t) p \<in> {None, Some 0, Some 1}"
    unfolding compare by (simp split: option.splits)
  have same: "classify_water svc img t = classify_water svc img' t"
    if "img ''B3'' = img' ''B3''" "img ''B8'' = img' ''B8''"
    using that
    by (simp add: classify_water_def calculate_ndwi_def ee_normalizedDifference_def)
  have dflt: "classify_water_default svc img = classify_water svc img 0"
    by (simp add: classify_water_default_def)
  from names index compare binary same dflt show ?thesis
    by blast
qed

text \<open>Two images of the small service that differ in their clouds, date and cloud cover
  only, at a pixel of water: green 3000, near infrared 500.\<close>

theorem water_classifier_witness:
  "bands (demo_scene [(0, 0)] [] 10 5) ''B3'' (0, 0) = Some 3000 \<and>
   bands (demo_scene [(0, 0)] [] 10 5) ''B8'' (0, 0) = Some 500 \<and>
   pixels (calculate_ndwi demo_service (bands (demo_scene [(0, 0)] [] 10 5))) (0, 0) =
     Some (2500 / 3500) \<and>
   bands (demo_scene [(0, 0)] [] 10 5) ''B3'' = bands (demo_scene [(0, 0)] [(1, 1)] 99 7) ''B3'' \<and>
   bands (demo_scene [(0, 0)] [] 10 5) ''B8'' = bands (demo_scene [(0, 0)] [(1, 1)] 99 7) ''B8'' \<and>
   classify_water demo_service (bands (demo_scene [(0, 0)] [] 10 5)) 0 =
     classify_water demo_service (bands (demo_scene [(0, 0)] [(1, 1)] 99 7)) 0"
proof -
  let ?a = "bands (demo_scene [(0, 0)] [] 10 5)"
  let ?b = "bands (demo_scene [(0, 0)] [(1, 1)] 99 7)"
  have g: "?a ''B3'' (0, 0) = Some 3000" and n: "?a ''B8'' (0, 0) = Some 500"
    by (simp_all add: demo_bands)
  have e3: "?a ''B3'' = ?b ''B3''" and e8: "?a ''B8'' = ?b ''B8''"
    by (simp_all add: demo_scene_def)
  note t = water_classifier [of demo_service ?a 0 "(0, 0)" 3000 500 ?b]
  have i: "pixels (calculate_ndwi demo_service ?a) (0, 0) = Some (2500 / 3500)"
    using t g n by simp
  have s: "classify_water demo_service ?a 0 = classify_water demo_service ?b 0"
    using t e3 e8 by blast
  from g n i e3 e8 s show ?thesis
    by (intro conjI)
qed

text \<open>
  Claim C10. The comparison is strict: a pixel whose index is exactly the threshold is
  not water, so with the default threshold a pixel of index 0 has the value 0; and a
  pixel is water (value 1) exactly when its index is unmasked and strictly above the
  threshold.
\<close>

theorem strict_threshold:
  "(pixels (calculate_ndwi svc img) p = Some 0 \<longrightarrow>
      pixels (classify_water_default svc img) p = Some 0) \<and>
   (pixels (calculate_ndwi svc img) p = Some t \<longrightarrow>
      pixels (classify_water svc img t) p = Some 0) \<and>
   (pixels (classify_water svc img t) p = Some 1 \<longleftrightarrow>
      (\<exists>x. pixels (calculate_ndwi svc img) p = Some x \<and> t < x))"
  by (auto simp: classify_water_default_def water_pixel split: if_splits)

text \<open>An image whose green and near-infrared values are equal has the index 0.\<close>

theorem strict_threshold_witness:
  "pixels (calculate_ndwi demo_service (\<lambda>b p. Some 1200)) (0, 0) = Some 0 \<and>
   pixels (classify_water_default demo_service (\<lambda>b p. Some 1200)) (0, 0) = Some 0 \<and>
   pixels (classify_water demo_service (\<lambda>b p. Some 1200) 0) (0, 0) = Some 0"
proof -
  have z: "pixels (calculate_ndwi demo_service (\<lambda>b p. Some 1200)) (0, 0) = Some 0"
    by (simp add: ndwi_pixel nd_pixel_def)
  from strict_threshold [of demo_service "\<lambda>b p. Some 1200" "(0, 0)" 0] z show ?thesis
    by blast
qed

section \<open>Authentication at start-up\<close>

lemma initialize_then_log_eq:
  "initialize_then_log c msg w =
     (case fault_at w 0 of
        Some e \<Rightarrow> (Some e, w\<lparr>trace := trace w @ [Remote (Initialize c)],
                               faults := tl (faults w)\<rparr>)
      | None \<Rightarrow> (None, w\<lparr>trace := trace w @ [Remote (Initialize c), Log INFO msg],
                          faults := tl (faults w)\<rparr>))"
  by (simp add: initialize_then_log_def remote_eq logger_def split: option.splits)

text \<open>Without a usable service account the body of the \<^verbatim>\<open>try\<close> initializes with the
  default credentials.\<close>

lemma authenticate_default:
  assumes "\<not> (\<exists>sa kf. getenv h ''GEE_SERVICE_ACCOUNT'' = Some sa \<and> sa \<noteq> [] \<and>
                     getenv h ''GEE_KEY_FILE'' = Some kf \<and> kf \<noteq> [] \<and> path_exists h kf)"
  shows "authenticate h w =
           initialize_then_log DefaultCredentials
             ''Authentication: Default Google Cloud Auth Initialized'' w"
  using assms
  by (auto simp: authenticate_def truthy_def Let_def split: option.splits)

lemma authenticate_service_account:
  assumes "getenv h ''GEE_SERVICE_ACCOUNT'' = Some sa" and "sa \<noteq> []"
    and "getenv h ''GEE_KEY_FILE'' = Some kf" and "kf \<noteq> []" and "path_exists h kf"
  shows "authenticate h w =
           (case credentials_error h sa kf of
              Some e \<Rightarrow> (Some e, w)
            | None \<Rightarrow> initialize_then_log (ServiceAccountCredentials sa kf)
                        ''Authentication: Service Account Initialized'' w)"
  using assms by (simp add: authenticate_def truthy_def Let_def)

text \<open>
  Claim C6. Start-up always ends with the process serving. When the service-account
  identifier and the key-file path are both set and not empty and the key file exists,
  the bootstrap builds the service-account credentials and initializes with them, and
  never with the default credentials; in every other case it initializes with the
  default credentials. An exception of the credentials or of the initialization is
  logged as \<^verbatim>\<open>Authentication Failed\<close> with its message, and nothing else is attempted.
\<close>

theorem authentication_bootstrap:
  "(\<exists>w1. startup h w = Serving w1) \<and>
   (getenv h ''GEE_SERVICE_ACCOUNT'' = Some sa \<and> sa \<noteq> [] \<and>
    getenv h ''GEE_KEY_FILE'' = Some kf \<and> kf \<noteq> [] \<and> path_exists h kf \<longrightarrow>
      startup h w = Serving
        (case credentials_error h sa kf of
           Some e \<Rightarrow> w\<lparr>trace := trace w @ [Log ERROR (''Authentication Failed: '' @ e)]\<rparr>
         | None \<Rightarrow>
             (case fault_at w 0 of
                Some e \<Rightarrow>
                  w\<lparr>trace := trace w @
                       [Remote (Initialize (ServiceAccountCredentials sa kf)),
                        Log ERROR (''Authentication Failed: '' @ e)],
                    faults := tl (faults w)\<rparr>
              | None \<Rightarrow>
                  w\<lparr>trace := trace w @
                       [Remote (Initialize (ServiceAccountCredentials sa kf)),
                        Log INFO ''Authentication: Service Account Initialized''],
                    faults := tl (faults w)\<rparr>))) \<and>
   (\<not> (\<exists>a k. getenv h ''GEE_SERVICE_ACCOUNT'' = Some a \<and> a \<noteq> [] \<and>
              getenv h ''GEE_KEY_FILE'' = Some k \<and> k \<noteq> [] \<and> path_exists h k) \<longrightarrow>
      startup h w = Serving
        (case fault_at w 0 of
           Some e \<Rightarrow>
             w\<lparr>trace := trace w @
                  [Remote (Initialize DefaultCredentials),
                   Log ERROR (''Authentication Failed: '' @ e)],
               faults := tl (faults w)\<rparr>
         | None \<Rightarrow>
             w\<lparr>trace := trace w @
                  [Remote (Initialize DefaultCredentials),
                   Log INFO ''Authentication: Default Google Cloud Auth Initialized''],
               faults := tl (faults w)\<rparr>))"
proof -
  have serving: "\<exists>w1. startup h w = Serving w1"
    by (cases "authenticate h w") (simp add: startup_def split: option.splits)
  have account: "startup h w = Serving
        (case credentials_error h sa kf of
           Some e \<Rightarrow> w\<lparr>trace := trace w @ [Log ERROR (''Authentication Failed: '' @ e)]\<rparr>
         | None \<Rightarrow>
             (case fault_at w 0 of
                Some e \<Rightarrow>
                  w\<lparr>trace := trace w @
                       [Remote (Initialize (ServiceAccountCredentials sa kf)),
                        Log ERROR (''Authentication Failed: '' @ e)],
                    faults := tl (faults w)\<rparr>
              | None \<Rightarrow>
                  w\<lparr>trace := trace w @
                       [Remote (Initialize (ServiceAccountCredentials sa kf)),
                        Log INFO ''Authentication: Service Account Initialized''],
                    faults := tl (faults w)\<rparr>))"
    if "getenv h ''GEE_SERVICE_ACCOUNT'' = Some sa" "sa \<noteq> []"
      "getenv h ''GEE_KEY_FILE'' = Some kf" "kf \<noteq> []" "path_exists h kf"
    unfolding startup_def authenticate_service_account [OF that] initialize_then_log_eq
    by (simp add: logger_def split: option.splits)
  have dflt: "startup h w = Serving
        (case fault_at w 0 of
           Some e \<Rightarrow>
             w\<lparr>trace := trace w @
                  [Remote (Initialize DefaultCredentials),
                   Log ERROR (''Authentication Failed: '' @ e)],
               faults := tl (faults w)\<rparr>
         | None \<Rightarrow>
             w\<lparr>trace := trace w @
                  [Remote (Initialize DefaultCredentials),
                   Log INFO ''Authentication: Default Google Cloud Auth Initialized''],
               faults := tl (faults w)\<rparr>)"
    if "\<not> (\<exists>a k. getenv h ''GEE_SERVICE_ACCOUNT'' = Some a \<and> a \<noteq> [] \<and>
                  getenv h ''GEE_KEY_FILE'' = Some k \<and> k \<noteq> [] \<and> path_exists h k)"
    unfolding startup_def authenticate_default [OF that] initialize_then_log_eq
    by (simp add: logger_def split: option.splits)
  from serving account dflt show ?thesis
    by blast
qed

text \<open>A host with both variables set: once with its key file on disk and an
  initialization that fails, once without the key file.\<close>

theorem authentication_bootstrap_witness:
  "startup
     \<lparr>getenv = (\<lambda>k. if k = ''GEE_SERVICE_ACCOUNT'' then Some ''hydro@example.iam''
                     else if k = ''GEE_KEY_FILE'' then Some ''key.json'' else None),
      path_exists = (\<lambda>p. p = ''key.json''),
      credentials_error = (\<lambda>a k. None)\<rparr>
     (fresh [Some ''invalid_grant'']) =
     Serving
       \<lparr>trace = [Remote (Initialize (ServiceAccountCredentials ''hydro@example.iam'' ''key.json'')),
                 Log ERROR ''Authentication Failed: invalid_grant''],
        faults = []\<rparr> \<and>
   startup
     \<lparr>getenv = (\<lambda>k. if k = ''GEE_SERVICE_ACCOUNT'' then Some ''hydro@example.iam''
                     else if k = ''GEE_KEY_FILE'' then Some ''key.json'' else None),
      path_exists = (\<lambda>p. False),
      credentials_error = (\<lambda>a k. None)\<rparr>
     (fresh []) =
     Serving
       \<lparr>trace = [Remote (Initialize DefaultCredentials),
                 Log INFO ''Authentication: Default Google Cloud Auth Initialized''],
        faults = []\<rparr>"
proof -
  let ?env = "\<lambda>k. if k = ''GEE_SERVICE_ACCOUNT'' then Some ''hydro@example.iam''
                   else if k = ''GEE_KEY_FILE'' then Some ''key.json'' else None"
  let ?ha = "\<lparr>getenv = ?env, path_exists = (\<lambda>p. p = ''key.json''),
              credentials_error = (\<lambda>a k. None)\<rparr>"
  let ?hb = "\<lparr>getenv = ?env, path_exists = (\<lambda>p. False),
              credentials_error = (\<lambda>a k. None)\<rparr>"
  have a: "getenv ?ha ''GEE_SERVICE_ACCOUNT'' = Some ''hydro@example.iam'' \<and>
           ''hydro@example.iam'' \<noteq> [] \<and>
           getenv ?ha ''GEE_KEY_FILE'' = Some ''key.json'' \<and> ''key.json'' \<noteq> [] \<and>
           path_exists ?ha ''key.json''"
    by simp
  have b: "\<not> (\<exists>a k. getenv ?hb ''GEE_SERVICE_ACCOUNT'' = Some a \<and> a \<noteq> [] \<and>
                   getenv ?hb ''GEE_KEY_FILE'' = Some k \<and> k \<noteq> [] \<and> path_exists ?hb k)"
    by simp
  have fa: "fault_at \<lparr>trace = [], faults = [Some ''invalid_grant'']\<rparr> 0 = Some ''invalid_grant''"
    and fb: "fault_at \<lparr>trace = [], faults = []\<rparr> 0 = None"
    by (simp_all add: fault_at_def)
  from authentication_bootstrap
         [of ?ha "fresh [Some ''invalid_grant'']" "''hydro@example.iam''" "''key.json''"] a
  have "startup ?ha (fresh [Some ''invalid_grant'']) =
     Serving
       \<lparr>trace = [Remote (Initialize (ServiceAccountCredentials ''hydro@example.iam'' ''key.json'')),
                 Log ERROR ''Authentication Failed: invalid_grant''],
        faults = []\<rparr>"
    by (simp add: fa fresh_def)
  moreover from authentication_bootstrap [of ?hb "fresh []"] b
  have "startup ?hb (fresh []) =
     Serving
       \<lparr>trace = [Remote (Initialize DefaultCredentials),
                 Log INFO ''Authentication: Default Google Cloud Auth Initialized''],
        faults = []\<rparr>"
    by (simp add: fb fresh_def)
  ultimately show ?thesis
    by (intro conjI)
qed

section \<open>The mosaic builder\<close>

text \<open>The three filters keep the images that meet the three conditions together.\<close>

lemma s2_collection_filter:
  assumes "parse_date svc start_date = Inr t0" and "parse_date svc end_date = Inr t1"
  shows "s2_collection svc roi start_date end_date =
           Inr (filter (\<lambda>sc. (\<exists>p \<in> set (footprint sc). p \<in> set roi) \<and>
                              t0 \<le> time_start sc \<and> time_start sc < t1 \<and>
                              cloudy_pixel_percentage sc < 30)
                  (catalog svc))"
  using assms
  by (simp add: s2_collection_def ee_filterBounds_def ee_filterDate_def ee_filter_lt_cloudy_def)

text \<open>The cloud mask of line 61: both bits of \<^verbatim>\<open>QA60\<close> are tested against zero.\<close>

lemma qa_bit_clear: "real_of_int (q AND push_bit n 1) = 0 \<longleftrightarrow> \<not> bit q n"
  by (simp add: and_exp_eq_0_iff_not_bit)

lemma mask_clouds_pixel:
  "mask_clouds img b p =
     (case img ''QA60'' p of
        None \<Rightarrow> None
      | Some q \<Rightarrow>
          if \<not> bit \<lfloor>q\<rfloor> 10 \<and> \<not> bit \<lfloor>q\<rfloor> 11 then map_option (\<lambda>x. x / 10000) (img b p)
          else None)"
proof (cases "img ''QA60'' p")
  case None
  then show ?thesis
    by (simp add: mask_clouds_def Let_def ee_divide_def ee_updateMask_def ee_And_def ee_eq_def
          ee_bitwiseAnd_def ee_select_def)
next
  case (Some q)
  have c: "(real_of_int (\<lfloor>q\<rfloor> AND push_bit 10 1) = 0) = (\<not> bit \<lfloor>q\<rfloor> 10)"
    and d: "(real_of_int (\<lfloor>q\<rfloor> AND push_bit 11 1) = 0) = (\<not> bit \<lfloor>q\<rfloor> 11)"
    by (rule qa_bit_clear)+
  show ?thesis
    unfolding mask_clouds_def Let_def ee_divide_def ee_updateMask_def ee_And_def ee_eq_def
      ee_bitwiseAnd_def ee_select_def band.sel Some option.case option.map c d
    by simp
qed

lemma map_filter_map: "List.map_filter f (map g xs) = List.map_filter (\<lambda>x. f (g x)) xs"
  by (induction xs) (simp_all split: option.splits)

lemma mosaic_pixel:
  "ee_clip (ee_median (ee_map mask_clouds scenes)) roi b p =
     (if p \<in> set roi
      then median_of (List.map_filter (\<lambda>sc. mask_clouds (bands sc) b p) scenes)
      else None)"
  by (simp add: ee_clip_def ee_median_def ee_map_def map_filter_map)

text \<open>
  Claim C4. Given dates that the service reads and a size query that does not raise,
  the builder returns a value, never an exception; it issues one remote call, the size
  query. The images it counts are those of the catalogue whose footprint meets the
  region, whose acquisition time is in the date range (start included, end excluded) and
  whose cloudy-pixel percentage is strictly below 30. It returns \<^verbatim>\<open>None\<close> exactly when
  their number is zero. Otherwise the mosaic it returns is, for every band and pixel:
  masked outside the region; inside, the median of the values of that pixel over those
  images, each divided by 10000, an image counting at a pixel only where bit 10 (cloud)
  and bit 11 (cirrus) of its \<^verbatim>\<open>QA60\<close> value are both 0.
\<close>

theorem mosaic_builder:
  fixes svc :: service and roi :: region and t0 t1 :: int
  defines "matching \<equiv>
    filter (\<lambda>sc. (\<exists>p \<in> set (footprint sc). p \<in> set roi) \<and>
                  t0 \<le> time_start sc \<and> time_start sc < t1 \<and>
                  cloudy_pixel_percentage sc < 30)
      (catalog svc)"
  assumes d0: "parse_date svc start_date = Inr t0"
    and d1: "parse_date svc end_date = Inr t1"
    and f: "fault_at w 0 = None"
  shows "(\<exists>r. fst (get_sentinel_mosaic svc roi start_date end_date w) = Inr r) \<and>
         (fst (get_sentinel_mosaic svc roi start_date end_date w) = Inr None
            \<longleftrightarrow> length matching = 0) \<and>
         (\<forall>m. fst (get_sentinel_mosaic svc roi start_date end_date w) = Inr (Some m) \<longrightarrow>
            (\<forall>b p. m b p =
               (if p \<in> set roi then
                  median_of
                    (List.map_filter
                       (\<lambda>sc. case bands sc ''QA60'' p of
                                None \<Rightarrow> None
                              | Some q \<Rightarrow>
                                  if \<not> bit \<lfloor>q\<rfloor> 10 \<and> \<not> bit \<lfloor>q\<rfloor> 11
                                  then map_option (\<lambda>x. x / 10000) (bands sc b p)
                                  else None)
                       matching)
                else None))) \<and>
         trace (snd (get_sentinel_mosaic svc roi start_date end_date w)) =
           trace w @ [Remote (CollectionSize roi start_date end_date)]"
proof -
  have col: "s2_collection svc roi start_date end_date = Inr matching"
    unfolding matching_def by (rule s2_collection_filter [OF d0 d1])
  have res: "fst (get_sentinel_mosaic svc roi start_date end_date w) =
               (if matching = [] then Inr None
                else Inr (Some (ee_clip (ee_median (ee_map mask_clouds matching)) roi)))"
    by (simp add: mosaic_result f col)
  have returns: "\<exists>r. fst (get_sentinel_mosaic svc roi start_date end_date w) = Inr r"
    unfolding res by simp
  have none: "fst (get_sentinel_mosaic svc roi start_date end_date w) = Inr None
                \<longleftrightarrow> length matching = 0"
    unfolding res by simp
  have some: "m b p =
               (if p \<in> set roi then
                  median_of
                    (List.map_filter
                       (\<lambda>sc. case bands sc ''QA60'' p of
                                None \<Rightarrow> None
                              | Some q \<Rightarrow>
                                  if \<not> bit \<lfloor>q\<rfloor> 10 \<and> \<not> bit \<lfloor>q\<rfloor> 11
                                  then map_option (\<lambda>x. x / 10000) (bands sc b p)
                                  else None)
                       matching)
                else None)"
    if "fst (get_sentinel_mosaic svc roi start_date end_date w) = Inr (Some m)" for m b p
  proof -
    from that have "m = ee_clip (ee_median (ee_map mask_clouds matching)) roi"
      unfolding res by (simp split: if_splits)
    then show ?thesis
      by (simp only: mosaic_pixel mask_clouds_pixel)
  qed
  have tr: "trace (snd (get_sentinel_mosaic svc roi start_date end_date w)) =
              trace w @ [Remote (CollectionSize roi start_date end_date)]"
    using returns by (auto simp: mosaic_trace)
  from returns none some tr show ?thesis
    by blast
qed

lemma demo_dates:
  "parse_date demo_service ''2023-01-01'' = Inr 0"
  "parse_date demo_service ''2023-02-01'' = Inr 31"
  "parse_date demo_service ''2023-07-01'' = Inr 181"
  "parse_date demo_service ''2023-08-01'' = Inr 212"
  by (simp_all add: demo_service_def demo_parse_date_def)

lemma demo_matching_january:
  "filter (\<lambda>sc. (\<exists>p \<in> set (footprint sc). p \<in> set demo_region) \<and>
                 0 \<le> time_start sc \<and> time_start sc < 31 \<and>
                 cloudy_pixel_percentage sc < 30)
     (catalog demo_service) = [demo_scene [(0, 0), (0, 1)] [] 10 5]"
  by (simp add: demo_service_def demo_catalog_def demo_scene_fields demo_region_nonempty)

lemma demo_matching_july:
  "filter (\<lambda>sc. (\<exists>p \<in> set (footprint sc). p \<in> set demo_region) \<and>
                 181 \<le> time_start sc \<and> time_start sc < 212 \<and>
                 cloudy_pixel_percentage sc < 30)
     (catalog demo_service) = []"
  by (simp add: demo_service_def demo_catalog_def demo_scene_fields demo_region_nonempty)

text \<open>The small service in July (no clear image) and in January (one clear image, whose
  green value 3000 at the pixel \<open>(0,0)\<close> becomes 0.3; the pixel \<open>(5,5)\<close> is outside the
  region).\<close>

theorem mosaic_builder_witness:
  "parse_date demo_service ''2023-01-01'' = Inr 0 \<and>
   parse_date demo_service ''2023-02-01'' = Inr 31 \<and>
   parse_date demo_service ''2023-07-01'' = Inr 181 \<and>
   parse_date demo_service ''2023-08-01'' = Inr 212 \<and>
   fault_at (fresh []) 0 = None \<and>
   fst (get_sentinel_mosaic demo_service demo_region ''2023-07-01'' ''2023-08-01'' (fresh []))
     = Inr None \<and>
   (\<exists>m. fst (get_sentinel_mosaic demo_service demo_region ''2023-01-01'' ''2023-02-01''
               (fresh [])) = Inr (Some m) \<and>
        m ''B3'' (0, 0) = Some 0.3 \<and> m ''B3'' (5, 5) = None)"
proof -
  have f: "fault_at (fresh []) 0 = None"
    by (simp add: fault_at_def fresh_fields)
  note july = mosaic_builder [OF demo_dates(3) demo_dates(4) f, where roi = demo_region]
  note january = mosaic_builder [OF demo_dates(1) demo_dates(2) f, where roi = demo_region]
  have a: "fst (get_sentinel_mosaic demo_service demo_region ''2023-07-01'' ''2023-08-01''
                  (fresh [])) = Inr None"
    using july unfolding demo_matching_july by simp
  from january obtain r where
    r: "fst (get_sentinel_mosaic demo_service demo_region ''2023-01-01'' ''2023-02-01''
              (fresh [])) = Inr r"
    by blast
  from january have "r \<noteq> None"
    unfolding demo_matching_january r by simp
  then obtain m where m: "r = Some m"
    by blast
  from january have px: "m b p =
      (if p \<in> set demo_region then
         median_of
           (List.map_filter
              (\<lambda>sc. case bands sc ''QA60'' p of
                       None \<Rightarrow> None
                     | Some q \<Rightarrow>
                         if \<not> bit \<lfloor>q\<rfloor> 10 \<and> \<not> bit \<lfloor>q\<rfloor> 11
                         then map_option (\<lambda>x. x / 10000) (bands sc b p)
                         else None)
              [demo_scene [(0, 0), (0, 1)] [] 10 5])
       else None)" for b p
    unfolding demo_matching_january r m by blast
  have b: "m ''B3'' (0, 0) = Some 0.3"
    unfolding px by (simp add: demo_region_def demo_bands median_of_def)
  have c: "m ''B3'' (5, 5) = None"
    unfolding px by (simp add: demo_region_def)
  from demo_dates f a r m b c show ?thesis
    by blast
qed

end
